theory Spec2Isabelle
  imports Complex_Main
begin

section \<open>Epsilon-ResNet: the CIFAR-10 and ImageNet training scripts\<close>

text \<open>
  The two scripts describe a computation graph to an external framework.  The embedding
  evaluates that graph on one input: a tensor is its shape together with its entries
  (real numbers stand for the framework's floats), the layers of the framework are
  parameters, the persistent variables of a graph are a store that every step takes and
  returns, and every \<^verbatim>\<open>assert\<close>, every rejected argument and every failed lookup is
  an error value.
\<close>

datatype error = AssertionError | ArgumentError | KeyError | IndexError | ValueError | ShapeError

subsection \<open>Command line of the ImageNet script\<close>

text \<open>
  The command line as \<^verbatim>\<open>argparse\<close> sees it after the \<^verbatim>\<open>type=\<close> conversion of
  each flag: a flag that was not given is \<open>None\<close>.  Text that is no integer (for
  \<^verbatim>\<open>--depth\<close>) or no float (for \<^verbatim>\<open>--epsilon\<close>) is rejected by the conversion itself
  and never reaches these records.
\<close>

record imagenet_cmdline =
  cl_gpu :: "string option"
  cl_data :: "string option"
  cl_load :: "string option"
  cl_fake :: bool
  cl_data_format :: "string option"
  cl_depth :: "int option"
  cl_eval :: bool
  cl_output :: "string option"
  cl_epsilon :: "real option"

record imagenet_args =
  gpu :: string
  data :: "string option"
  load :: "string option"
  fake :: bool
  data_format :: string
  depth :: int
  eval_only :: bool
  output_dir :: "string option"
  epsilon :: real

definition depth_choices :: "int list" where
  "depth_choices = [18, 34, 50, 101, 152]"

definition parse_depth :: "int option \<Rightarrow> error + int" where
  "parse_depth a =
     (case a of
        None \<Rightarrow> Inr 18
      | Some d \<Rightarrow> if d \<in> set depth_choices then Inr d else Inl ArgumentError)"

definition imagenet_parse_args :: "imagenet_cmdline \<Rightarrow> error + imagenet_args" where
  "imagenet_parse_args cl =
     (case cl_gpu cl of
        None \<Rightarrow> Inl ArgumentError
      | Some g \<Rightarrow>
          (case parse_depth (cl_depth cl) of
             Inl e \<Rightarrow> Inl e
           | Inr d \<Rightarrow>
               Inr \<lparr> gpu = g, data = cl_data cl, load = cl_load cl, fake = cl_fake cl,
                     data_format = (case cl_data_format cl of None \<Rightarrow> ''NCHW'' | Some f \<Rightarrow> f),
                     depth = d, eval_only = cl_eval cl, output_dir = cl_output cl,
                     epsilon = (case cl_epsilon cl of None \<Rightarrow> 2.0 | Some e \<Rightarrow> e) \<rparr>))"

text \<open>
  The module-level names of the ImageNet script.  \<^verbatim>\<open>DEPTH\<close> and \<^verbatim>\<open>SIDE_POSITION\<close> start
  as \<^verbatim>\<open>None\<close>, \<^verbatim>\<open>EPSILON\<close> as 2.0.  The main block assigns \<^verbatim>\<open>DEPTH = args.depth\<close> and
  nothing else among them: \<^verbatim>\<open>args.epsilon\<close> is parsed and never read.
\<close>

record imagenet_globals =
  DEPTH :: "int option"
  SIDE_POSITION :: "int option"
  imagenet_EPSILON :: real

definition imagenet_initial_globals :: imagenet_globals where
  "imagenet_initial_globals = \<lparr> DEPTH = None, SIDE_POSITION = None, imagenet_EPSILON = 2.0 \<rparr>"

definition imagenet_main :: "imagenet_cmdline \<Rightarrow> error + imagenet_globals" where
  "imagenet_main cl =
     (case imagenet_parse_args cl of
        Inl e \<Rightarrow> Inl e
      | Inr args \<Rightarrow> Inr (imagenet_initial_globals \<lparr> DEPTH := Some (depth args) \<rparr>))"

subsection \<open>Depth table of the ImageNet script\<close>

datatype block_func = basicblock | bottleneck

definition cfg :: "(int \<times> nat list \<times> block_func) list" where
  "cfg =
     [(18, [2, 2, 2, 2], basicblock),
      (34, [3, 4, 6, 3], basicblock),
      (50, [3, 4, 6, 3], bottleneck),
      (101, [3, 4, 23, 3], bottleneck),
      (152, [3, 8, 36, 3], bottleneck)]"

text \<open>\<^verbatim>\<open>defs, block_func = cfg[DEPTH]\<close>: a key that is not in the table raises.\<close>

definition cfg_lookup :: "int option \<Rightarrow> error + (nat list \<times> block_func)" where
  "cfg_lookup d =
     (case d of
        None \<Rightarrow> Inl KeyError
      | Some k \<Rightarrow> (case map_of cfg k of None \<Rightarrow> Inl KeyError | Some c \<Rightarrow> Inr c))"

definition main_cfg :: "imagenet_cmdline \<Rightarrow> error + (nat list \<times> block_func)" where
  "main_cfg cl =
     (case imagenet_main cl of Inl e \<Rightarrow> Inl e | Inr g \<Rightarrow> cfg_lookup (DEPTH g))"

subsection \<open>Tensors, variables and the layers of the framework\<close>

text \<open>
  A tensor is its static shape and its entries in row-major order.  Addition of two
  tensors is entry by entry and needs equal shapes (the framework would also broadcast
  some unequal shapes, which neither network relies on); a scalar times a tensor scales
  every entry; \<^verbatim>\<open>tf.where\<close> on a scalar condition selects one of its two operands whole.
\<close>

record tensor =
  shape :: "nat list"
  entries :: "real list"

type_synonym label = "nat list"

definition tscale :: "real \<Rightarrow> tensor \<Rightarrow> tensor" where
  "tscale c t = t \<lparr> entries := map (\<lambda>x. c * x) (entries t) \<rparr>"

definition tadd :: "tensor \<Rightarrow> tensor \<Rightarrow> error + tensor" where
  "tadd a b =
     (if shape a = shape b \<and> length (entries a) = length (entries b)
      then Inr \<lparr> shape = shape a, entries = map2 (+) (entries a) (entries b) \<rparr>
      else Inl ShapeError)"

definition tf_where :: "bool \<Rightarrow> 'a \<Rightarrow> 'a \<Rightarrow> 'a" where
  "tf_where c x y = (if c then x else y)"

text \<open>\<^verbatim>\<open>tf.add_n\<close> of a list of scalars; the empty list is refused.\<close>

definition add_n :: "real list \<Rightarrow> error + real" where
  "add_n xs = (if xs = [] then Inl ValueError else Inr (sum_list xs))"

text \<open>
  A variable of the graph has a value and the \<^verbatim>\<open>trainable\<close> flag it was created with.
  The variables live in a store keyed by their scoped name and outlive the step that
  reads or assigns them.  \<^verbatim>\<open>tf.get_variable\<close> returns the variable of that name, creating
  it from the initializer when the store has none.
\<close>

record variable =
  var_value :: real
  var_trainable :: bool

type_synonym variables = "string \<rightharpoonup> variable"

definition get_variable :: "variables \<Rightarrow> string \<Rightarrow> real \<Rightarrow> bool \<Rightarrow> variable \<times> variables" where
  "get_variable vs name init tr =
     (case vs name of
        Some v \<Rightarrow> (v, vs)
      | None \<Rightarrow>
          (let v = \<lparr> var_value = init, var_trainable = tr \<rparr> in (v, vs(name \<mapsto> v))))"

definition assign :: "variables \<Rightarrow> string \<Rightarrow> real \<Rightarrow> variables" where
  "assign vs name w =
     (case vs name of
        None \<Rightarrow> vs
      | Some v \<Rightarrow> vs(name \<mapsto> v \<lparr> var_value := w \<rparr>))"

datatype nonlin = nl_identity | nl_BNReLU

text \<open>
  What the scripts import: the layers of the framework, given with the scoped name under
  which each keeps its weights, and the two helpers of \<^verbatim>\<open>EpsilonResNetBase\<close> whose
  inner workings the scripts do not see: the side classification head (its loss) and the
  statistic and comparison inside \<^verbatim>\<open>strict_identity\<close>.  The layers are the ones of the
  tower being evaluated (batch normalisation differs between training and inference).
\<close>

record env =
  BNReLU :: "string \<Rightarrow> tensor \<Rightarrow> tensor"
  Conv2D :: "string \<Rightarrow> tensor \<Rightarrow> nat \<Rightarrow> nat \<Rightarrow> nat \<Rightarrow> nonlin \<Rightarrow> tensor"
  AvgPooling :: "string \<Rightarrow> tensor \<Rightarrow> nat \<Rightarrow> tensor"
  MaxPooling :: "string \<Rightarrow> tensor \<Rightarrow> nat \<Rightarrow> nat \<Rightarrow> tensor"
  GlobalAvgPooling :: "string \<Rightarrow> tensor \<Rightarrow> tensor"
  FullyConnected :: "string \<Rightarrow> tensor \<Rightarrow> nat \<Rightarrow> tensor"
  tf_pad :: "tensor \<Rightarrow> (nat \<times> nat) list \<Rightarrow> tensor"
  tf_transpose :: "tensor \<Rightarrow> nat list \<Rightarrow> tensor"
  cross_entropy_loss :: "tensor \<Rightarrow> label \<Rightarrow> real"
  wd_cost :: real
  side_output :: "string \<Rightarrow> tensor \<Rightarrow> label \<Rightarrow> nat \<Rightarrow> real"
  side_output_unlabelled :: "string \<Rightarrow> tensor \<Rightarrow> nat \<Rightarrow> real"
  sparsity :: "tensor \<Rightarrow> real"
  criterion :: "real \<Rightarrow> real \<Rightarrow> bool"

text \<open>
  Modelled from the spec: \<^verbatim>\<open>strict_identity\<close> of \<^verbatim>\<open>EpsilonResNetBase\<close>, which is not
  among the sources.  The spec: the gate is "set during training by comparing a sparsity
  statistic of F(input) against a fixed threshold", the comparison assigns "a persistent
  0/1 gate", and the gate zeroes the residual branch "when a sparsity-promoting criterion
  is satisfied".  The statistic and the comparison are left open, as the spec leaves them.
\<close>

definition strict_identity :: "env \<Rightarrow> tensor \<Rightarrow> real \<Rightarrow> real" where
  "strict_identity fw l eps = (if criterion fw (sparsity fw l) eps then 0 else 1)"

text \<open>What a graph under construction has collected so far.\<close>

record build =
  variables :: variables
  preds :: "real list"
  side_output_cost :: "real list"

definition is_discarded :: "real \<Rightarrow> real" where
  "is_discarded identity_w = tf_where (identity_w = 0) 1 0"

subsection \<open>The residual block of the CIFAR-10 script\<close>

definition cifar_residual_convs ::
    "env \<Rightarrow> string \<Rightarrow> tensor \<Rightarrow> bool \<Rightarrow> nat \<Rightarrow> nat \<Rightarrow> tensor" where
  "cifar_residual_convs fw scope l first out_channel stride1 =
     (let b1 = (if first then l else BNReLU fw scope l);
          c1 = Conv2D fw (scope @ ''/conv1'') b1 out_channel 3 stride1 nl_BNReLU;
          c2 = Conv2D fw (scope @ ''/conv2'') c1 out_channel 3 1 nl_identity
      in c2)"

text \<open>
  The three values the first \<^verbatim>\<open>if\<close> of \<^verbatim>\<open>residual\<close> sets: the output channels, the
  stride of the first convolution and the shortcut.
\<close>

definition cifar_branch :: "env \<Rightarrow> tensor \<Rightarrow> nat \<Rightarrow> bool \<Rightarrow> nat \<times> nat \<times> tensor" where
  "cifar_branch fw l in_channel increase_dim =
     (if increase_dim
      then (in_channel * 2, 2,
            tf_pad fw (AvgPooling fw ''pool'' l 2)
              [(0, 0), (in_channel div 2, in_channel div 2), (0, 0), (0, 0)])
      else (in_channel, 1, l))"

definition cifar_residual ::
    "env \<Rightarrow> real \<Rightarrow> bool \<Rightarrow> string \<Rightarrow> tensor \<Rightarrow> bool \<Rightarrow> bool \<Rightarrow> build
      \<Rightarrow> error + (tensor \<times> build)" where
  "cifar_residual fw eps is_training name l increase_dim first st =
     (if length (shape l) \<le> 1 then Inl IndexError
      else
        (let in_channel = shape l ! 1;
             (out_channel, stride1, short_cut) = cifar_branch fw l in_channel increase_dim;
             (identity_w, vs) = get_variable (variables st) (name @ ''/identity'') 1 False
         in if is_training then
              (let l1 = cifar_residual_convs fw name l first out_channel stride1;
                   w = strict_identity fw l1 eps;
                   vs1 = assign vs (name @ ''/identity'') w
               in case tadd (tscale w l1) short_cut of
                    Inl e \<Rightarrow> Inl e
                  | Inr l2 \<Rightarrow>
                      Inr (l2, st \<lparr> variables := vs1, preds := preds st @ [is_discarded w] \<rparr>))
            else
              (case tadd (cifar_residual_convs fw name l first out_channel stride1) short_cut of
                 Inl e \<Rightarrow> Inl e
               | Inr s \<Rightarrow>
                   Inr (tf_where (var_value identity_w = 0) short_cut s,
                        st \<lparr> variables := vs,
                             preds := preds st @ [is_discarded (var_value identity_w)] \<rparr>))))"

text \<open>
  Names for the parts of a block that the properties speak of: the shortcut of the input,
  the residual branch \<open>F\<close> of the input, and the gate the store holds for a block (the
  initializer's 1.0 while the variable has not been created).
\<close>

definition cifar_shortcut :: "env \<Rightarrow> tensor \<Rightarrow> bool \<Rightarrow> tensor" where
  "cifar_shortcut fw l increase_dim = snd (snd (cifar_branch fw l (shape l ! 1) increase_dim))"

definition cifar_F :: "env \<Rightarrow> string \<Rightarrow> tensor \<Rightarrow> bool \<Rightarrow> bool \<Rightarrow> tensor" where
  "cifar_F fw name l increase_dim first =
     (let (out_channel, stride1, short_cut) = cifar_branch fw l (shape l ! 1) increase_dim
      in cifar_residual_convs fw name l first out_channel stride1)"

definition stored_gate :: "variables \<Rightarrow> string \<Rightarrow> real" where
  "stored_gate vs name = var_value (fst (get_variable vs (name @ ''/identity'') 1 False))"

subsection \<open>The CIFAR-10 network\<close>

text \<open>
  \<^verbatim>\<open>str\<close> and \<^verbatim>\<open>format\<close> of an integer, for the names of the blocks.  The scripts use
  \<^verbatim>\<open>/\<close> between integers where they need an integer (the name of a block); it is
  Python 2's division, which rounds down.
\<close>

fun digits :: "nat \<Rightarrow> string" where
  "digits n =
     (if n < 10 then [char_of (48 + n)] else digits (n div 10) @ [char_of (48 + n mod 10)])"

definition str :: "int \<Rightarrow> string" where
  "str i = (if i < 0 then CHR ''-'' # digits (nat (- i)) else digits (nat i))"

text \<open>\<^verbatim>\<open>range(1, n)\<close>.\<close>

definition range1 :: "int \<Rightarrow> int list" where
  "range1 n = map int [1 ..< nat n]"

text \<open>
  The loops \<^verbatim>\<open>for k in range(1, self.n)\<close> of the first and third stage, and the one of
  the second stage, which attaches the side classification head to the block whose index
  is \<^verbatim>\<open>self.n/2\<close>.
\<close>

fun cifar_stage_loop ::
    "env \<Rightarrow> real \<Rightarrow> bool \<Rightarrow> string \<Rightarrow> int list \<Rightarrow> tensor \<Rightarrow> build \<Rightarrow> error + (tensor \<times> build)" where
  "cifar_stage_loop fw eps is_training prefix [] l st = Inr (l, st)"
| "cifar_stage_loop fw eps is_training prefix (k # ks) l st =
     (case cifar_residual fw eps is_training (prefix @ str k) l False False st of
        Inl e \<Rightarrow> Inl e
      | Inr (l1, st1) \<Rightarrow> cifar_stage_loop fw eps is_training prefix ks l1 st1)"

fun cifar_stage2_loop ::
    "env \<Rightarrow> real \<Rightarrow> bool \<Rightarrow> int \<Rightarrow> label \<Rightarrow> int list \<Rightarrow> tensor \<Rightarrow> build
      \<Rightarrow> error + (tensor \<times> build)" where
  "cifar_stage2_loop fw eps is_training n label [] l st = Inr (l, st)"
| "cifar_stage2_loop fw eps is_training n label (k # ks) l st =
     (case cifar_residual fw eps is_training (''res2.'' @ str k) l False False st of
        Inl e \<Rightarrow> Inl e
      | Inr (l1, st1) \<Rightarrow>
          cifar_stage2_loop fw eps is_training n label ks l1
            (if k = n div 2
             then st1 \<lparr> side_output_cost :=
                          side_output_cost st1 @ [side_output fw (''res2.'' @ str k) l1 label 10] \<rparr>
             else st1))"

text \<open>
  \<^verbatim>\<open>[tf.multiply(side_loss_w[i], side_output_cost[i]) for i in range(len(side_output_cost))]\<close>:
  an index beyond the weights raises.
\<close>

definition weigh_side_costs :: "real list \<Rightarrow> real list \<Rightarrow> error + real list" where
  "weigh_side_costs side_loss_w costs =
     (if length side_loss_w < length costs then Inl IndexError
      else Inr (map (\<lambda>i. side_loss_w ! i * costs ! i) [0 ..< length costs]))"

record cifar_graph =
  g_logits :: tensor
  g_all_cnt :: real
  g_discarded_cnt :: real
  g_discarded_ratio :: real
  g_side_output_cost :: "real list"
  g_cost :: real
  g_build :: build

definition cifar_build_graph ::
    "env \<Rightarrow> bool \<Rightarrow> real \<Rightarrow> int \<Rightarrow> bool \<Rightarrow> variables \<Rightarrow> tensor \<Rightarrow> label \<Rightarrow> error + cifar_graph" where
  "cifar_build_graph fw gpu_available eps n is_training vs img label =
     (let image1 = tscale (1 / 128) img in
      if \<not> gpu_available then Inl AssertionError
      else
        (let image2 = tf_transpose fw image1 [0, 3, 1, 2];
             all_cnt = real_of_int (n * 3 + 2);
             st0 = \<lparr> variables = vs, preds = [], side_output_cost = [] \<rparr>;
             l0 = Conv2D fw ''conv0'' image2 16 3 1 nl_BNReLU
         in case cifar_residual fw eps is_training ''res1.0'' l0 False True st0 of
              Inl e \<Rightarrow> Inl e
            | Inr (l1, st1) \<Rightarrow>
         (case cifar_stage_loop fw eps is_training ''res1.'' (range1 n) l1 st1 of
              Inl e \<Rightarrow> Inl e
            | Inr (l2, st2) \<Rightarrow>
         (case cifar_residual fw eps is_training ''res2.0'' l2 True False st2 of
              Inl e \<Rightarrow> Inl e
            | Inr (l3, st3) \<Rightarrow>
         (case cifar_stage2_loop fw eps is_training n label (range1 n) l3 st3 of
              Inl e \<Rightarrow> Inl e
            | Inr (l4, st4) \<Rightarrow>
         (case cifar_residual fw eps is_training ''res3.0'' l4 True False st4 of
              Inl e \<Rightarrow> Inl e
            | Inr (l5, st5) \<Rightarrow>
         (case cifar_stage_loop fw eps is_training ''res3.'' (range1 n) l5 st5 of
              Inl e \<Rightarrow> Inl e
            | Inr (l6, st6) \<Rightarrow>
         (let l7 = BNReLU fw ''bnlast'' l6;
              l8 = GlobalAvgPooling fw ''gap'' l7;
              logits = FullyConnected fw ''linear'' l8 10;
              cost = cross_entropy_loss fw logits label
          in case add_n (preds st6) of
               Inl e \<Rightarrow> Inl e
             | Inr discarded_cnt \<Rightarrow>
          (case weigh_side_costs [0.1] (side_output_cost st6) of
               Inl e \<Rightarrow> Inl e
             | Inr side \<Rightarrow>
          (case add_n (side @ [cost, wd_cost fw]) of
               Inl e \<Rightarrow> Inl e
             | Inr total_cost \<Rightarrow>
                 Inr \<lparr> g_logits = logits, g_all_cnt = all_cnt,
                       g_discarded_cnt = discarded_cnt,
                       g_discarded_ratio = discarded_cnt / all_cnt,
                       g_side_output_cost = side, g_cost = total_cost, g_build = st6 \<rparr>))))))))))"

subsection \<open>Command line of the CIFAR-10 script\<close>

text \<open>
  \<^verbatim>\<open>--epsilon\<close> has no \<^verbatim>\<open>type=\<close>: the main block sees its text and converts it with
  \<^verbatim>\<open>float\<close>, a parameter here (\<open>None\<close> where \<^verbatim>\<open>float\<close> raises), and only when the text is
  not empty.
\<close>

record cifar_cmdline =
  c_gpu :: "string option"
  c_num_units :: "int option"
  c_load :: "string option"
  c_epsilon :: "string option"
  c_output :: "string option"

record cifar_globals =
  NUM_UNITS :: "int option"
  cifar_EPSILON :: real

definition cifar_initial_globals :: cifar_globals where
  "cifar_initial_globals = \<lparr> NUM_UNITS = None, cifar_EPSILON = 2.5 \<rparr>"

definition cifar_main :: "(string \<Rightarrow> real option) \<Rightarrow> cifar_cmdline \<Rightarrow> error + cifar_globals" where
  "cifar_main float cl =
     (let g = cifar_initial_globals
                \<lparr> NUM_UNITS := Some (case c_num_units cl of None \<Rightarrow> 18 | Some n \<Rightarrow> n) \<rparr>
      in case c_epsilon cl of
           None \<Rightarrow> Inr g
         | Some s \<Rightarrow>
             if s = [] then Inr g
             else (case float s of
                     None \<Rightarrow> Inl ValueError
                   | Some e \<Rightarrow> Inr (g \<lparr> cifar_EPSILON := e \<rparr>)))"

text \<open>
  A run of the script: the main block, then the graph of \<^verbatim>\<open>Model(n=NUM_UNITS)\<close>, built by
  the trainer for training and by the inference callback for evaluation, with the
  threshold \<^verbatim>\<open>EPSILON\<close> as the main block left it.
\<close>

definition cifar_run ::
    "(string \<Rightarrow> real option) \<Rightarrow> cifar_cmdline \<Rightarrow> env \<Rightarrow> bool \<Rightarrow> bool \<Rightarrow> variables \<Rightarrow> tensor \<Rightarrow> label
      \<Rightarrow> error + cifar_graph" where
  "cifar_run float cl fw gpu_available is_training vs img label =
     (case cifar_main float cl of
        Inl e \<Rightarrow> Inl e
      | Inr g \<Rightarrow>
          (case NUM_UNITS g of
             None \<Rightarrow> Inl ValueError
           | Some n \<Rightarrow>
               cifar_build_graph fw gpu_available (cifar_EPSILON g) n is_training vs img label))"

subsection \<open>The residual block of the ImageNet script\<close>

text \<open>
  The functions run inside the variable scope of their block, which \<^verbatim>\<open>layer\<close> opens; the
  scope is an argument here.
\<close>

definition shortcut :: "env \<Rightarrow> string \<Rightarrow> tensor \<Rightarrow> nat \<Rightarrow> nat \<Rightarrow> nat \<Rightarrow> tensor" where
  "shortcut fw scope l n_in n_out stride =
     (if n_in \<noteq> n_out then Conv2D fw (scope @ ''/convshortcut'') l n_out 1 stride nl_identity
      else l)"

definition imagenet_residual_convs ::
    "env \<Rightarrow> string \<Rightarrow> tensor \<Rightarrow> nat \<Rightarrow> nat \<Rightarrow> bool \<Rightarrow> tensor" where
  "imagenet_residual_convs fw scope l ch_out stride is_basicblock =
     (if is_basicblock then
        (let l1 = Conv2D fw (scope @ ''/conv1'') l ch_out 3 stride nl_BNReLU;
             l2 = Conv2D fw (scope @ ''/conv2'') l1 ch_out 3 1 nl_identity
         in l2)
      else
        (let l1 = Conv2D fw (scope @ ''/conv1'') l ch_out 1 1 nl_BNReLU;
             l2 = Conv2D fw (scope @ ''/conv2'') l1 ch_out 3 stride nl_BNReLU;
             l3 = Conv2D fw (scope @ ''/conv3'') l2 (ch_out * 4) 1 1 nl_identity
         in l3))"

text \<open>The pre-activation at the head of \<^verbatim>\<open>residual\<close>: the pair \<^verbatim>\<open>(input, l)\<close> it leaves.\<close>

definition imagenet_preact :: "env \<Rightarrow> string \<Rightarrow> string \<Rightarrow> tensor \<Rightarrow> tensor \<times> tensor" where
  "imagenet_preact fw scope preact l =
     (if preact = ''both_preact'' then
        (let l1 = BNReLU fw (scope @ ''/preact'') l in (l1, l1))
      else if preact \<noteq> ''no_preact'' then (l, BNReLU fw (scope @ ''/preact'') l)
      else (l, l))"

definition imagenet_residual ::
    "env \<Rightarrow> real \<Rightarrow> bool \<Rightarrow> string \<Rightarrow> tensor \<Rightarrow> nat \<Rightarrow> nat \<Rightarrow> string \<Rightarrow> bool \<Rightarrow> build
      \<Rightarrow> error + (tensor \<times> build)" where
  "imagenet_residual fw eps is_training scope l ch_out stride preact is_basicblock st =
     (if length (shape l) \<le> 1 then Inl IndexError
      else
        (let ch_in = shape l ! 1;
             (input, l0) = imagenet_preact fw scope preact l;
             (identity_w, vs) = get_variable (variables st) (scope @ ''/identity'') 1 False;
             short_cut = shortcut fw scope input ch_in (ch_out * 4) stride
         in if is_training then
              (let l1 = imagenet_residual_convs fw scope l0 ch_out stride is_basicblock;
                   w = strict_identity fw l1 eps;
                   vs1 = assign vs (scope @ ''/identity'') w
               in case tadd (tscale w l1) short_cut of
                    Inl e \<Rightarrow> Inl e
                  | Inr l2 \<Rightarrow>
                      Inr (l2, st \<lparr> variables := vs1, preds := preds st @ [is_discarded w] \<rparr>))
            else
              (case tadd (imagenet_residual_convs fw scope l0 ch_out stride is_basicblock)
                      short_cut of
                 Inl e \<Rightarrow> Inl e
               | Inr s \<Rightarrow>
                   Inr (tf_where (var_value identity_w = 0) short_cut s,
                        st \<lparr> variables := vs,
                             preds := preds st @ [is_discarded (var_value identity_w)] \<rparr>))))"

text \<open>The shortcut and the residual branch of that block, for the properties.\<close>

definition imagenet_shortcut :: "env \<Rightarrow> string \<Rightarrow> tensor \<Rightarrow> nat \<Rightarrow> nat \<Rightarrow> string \<Rightarrow> tensor" where
  "imagenet_shortcut fw scope l ch_out stride preact =
     shortcut fw scope (fst (imagenet_preact fw scope preact l)) (shape l ! 1) (ch_out * 4) stride"

definition imagenet_F :: "env \<Rightarrow> string \<Rightarrow> tensor \<Rightarrow> nat \<Rightarrow> nat \<Rightarrow> string \<Rightarrow> bool \<Rightarrow> tensor" where
  "imagenet_F fw scope l ch_out stride preact is_basicblock =
     imagenet_residual_convs fw scope (snd (imagenet_preact fw scope preact l)) ch_out stride
       is_basicblock"

subsection \<open>The ImageNet network\<close>

text \<open>
  The two block functions of the table, as the script defines them: each is the
  convolution stack alone.  Neither calls \<^verbatim>\<open>residual\<close>, and neither reads its
  \<^verbatim>\<open>preact\<close> argument.
\<close>

fun apply_block_func ::
    "block_func \<Rightarrow> env \<Rightarrow> string \<Rightarrow> tensor \<Rightarrow> nat \<Rightarrow> nat \<Rightarrow> string \<Rightarrow> tensor" where
  "apply_block_func basicblock fw scope l ch_out stride preact =
     imagenet_residual_convs fw scope l ch_out stride True"
| "apply_block_func bottleneck fw scope l ch_out stride preact =
     imagenet_residual_convs fw scope l ch_out stride False"

text \<open>
  \<^verbatim>\<open>layer\<close>, with the two tests for the side head read as Python's \<^verbatim>\<open>and\<close> (the script
  writes \<^verbatim>\<open>&&\<close>, and leaves out the colon of the first).  The side head is called without
  the labels here.
\<close>

fun layer_loop ::
    "env \<Rightarrow> int \<Rightarrow> string \<Rightarrow> block_func \<Rightarrow> nat \<Rightarrow> int list \<Rightarrow> tensor \<Rightarrow> build \<Rightarrow> tensor \<times> build" where
  "layer_loop fw side_position layername bf features [] l st = (l, st)"
| "layer_loop fw side_position layername bf features (i # is) l st =
     (let l1 = apply_block_func bf fw (layername @ ''/block'' @ str i) l features 1 ''default''
      in layer_loop fw side_position layername bf features is l1
           (if layername = ''group2'' \<and> i = side_position
            then st \<lparr> side_output_cost :=
                        side_output_cost st @ [side_output_unlabelled fw (''block'' @ str i) l1 1000] \<rparr>
            else st))"

definition layer ::
    "env \<Rightarrow> int \<Rightarrow> tensor \<Rightarrow> string \<Rightarrow> block_func \<Rightarrow> nat \<Rightarrow> nat \<Rightarrow> nat \<Rightarrow> bool \<Rightarrow> build
      \<Rightarrow> tensor \<times> build" where
  "layer fw side_position l layername bf features count stride first st =
     (let l0 = apply_block_func bf fw (layername @ ''/block0'') l features stride
                 (if first then ''no_preact'' else ''both_preact'')
      in layer_loop fw side_position layername bf features (range1 (int count)) l0
           (if layername = ''group2'' \<and> side_position = 0
            then st \<lparr> side_output_cost :=
                        side_output_cost st @ [side_output_unlabelled fw ''block0'' l0 1000] \<rparr>
            else st))"

text \<open>\<^verbatim>\<open>Model.__init__\<close>.\<close>

record imagenet_model =
  model_data_format :: string

definition imagenet_Model :: "bool \<Rightarrow> string \<Rightarrow> error + imagenet_model" where
  "imagenet_Model gpu_available fmt =
     (if fmt = ''NCHW'' then
        (if gpu_available then Inr \<lparr> model_data_format = fmt \<rparr> else Inl AssertionError)
      else Inr \<lparr> model_data_format = fmt \<rparr>)"

text \<open>
  \<^verbatim>\<open>_build_graph\<close>, up to its last line.  That line hands \<^verbatim>\<open>tf.add_n\<close> the two losses
  and, as a third element, the list of weighted side losses; the record keeps the three
  apart.  The subtraction of the mean and the division by the deviation of the pixels are
  the framework's.
\<close>

record imagenet_graph =
  i_logits :: tensor
  i_side_position :: int
  i_loss :: real
  i_wd_cost :: real
  i_side_output_cost :: "real list"
  i_build :: build

definition imagenet_build_graph ::
    "env \<Rightarrow> (tensor \<Rightarrow> tensor) \<Rightarrow> imagenet_globals \<Rightarrow> imagenet_model \<Rightarrow> variables \<Rightarrow> tensor \<Rightarrow> label
      \<Rightarrow> error + imagenet_graph" where
  "imagenet_build_graph fw standardize g m vs img label =
     (let image1 = tscale (1 / 255) img;
          image2 = standardize image1;
          image3 = (if model_data_format m = ''NCHW'' then tf_transpose fw image2 [0, 3, 1, 2]
                    else image2);
          st0 = \<lparr> variables = vs, preds = [], side_output_cost = [] \<rparr>
      in case cfg_lookup (DEPTH g) of
           Inl e \<Rightarrow> Inl e
         | Inr (defs, bf) \<Rightarrow>
             if length defs < 4 then Inl IndexError
             else
               (let side_position = int (sum_list defs) div 2 - int (sum_list (take 2 defs)) - 1;
                    l0 = Conv2D fw ''conv0'' image3 64 7 2 nl_BNReLU;
                    l1 = MaxPooling fw ''pool0'' l0 3 2;
                    (l2, st2) = layer fw side_position l1 ''group0'' bf 64 (defs ! 0) 1 True st0;
                    (l3, st3) = layer fw side_position l2 ''group1'' bf 128 (defs ! 1) 2 False st2;
                    (l4, st4) = layer fw side_position l3 ''group2'' bf 256 (defs ! 2) 2 False st3;
                    (l5, st5) = layer fw side_position l4 ''group3'' bf 512 (defs ! 3) 2 False st4;
                    l6 = BNReLU fw ''bnlast'' l5;
                    l7 = GlobalAvgPooling fw ''gap'' l6;
                    logits = FullyConnected fw ''linear'' l7 1000;
                    loss = cross_entropy_loss fw logits label
                in case weigh_side_costs [0.1] (side_output_cost st5) of
                     Inl e \<Rightarrow> Inl e
                   | Inr side \<Rightarrow>
                       Inr \<lparr> i_logits = logits, i_side_position = side_position, i_loss = loss,
                             i_wd_cost = wd_cost fw, i_side_output_cost = side,
                             i_build = st5 \<rparr>))"

text \<open>
  A run of the script: the main block, then \<^verbatim>\<open>Model()\<close> for \<^verbatim>\<open>--eval\<close> and
  \<^verbatim>\<open>Model(data_format=args.data_format)\<close> otherwise, then its graph.
\<close>

definition imagenet_run ::
    "imagenet_cmdline \<Rightarrow> env \<Rightarrow> (tensor \<Rightarrow> tensor) \<Rightarrow> bool \<Rightarrow> variables \<Rightarrow> tensor \<Rightarrow> label
      \<Rightarrow> error + imagenet_graph" where
  "imagenet_run cl fw standardize gpu_available vs img label =
     (case imagenet_parse_args cl of
        Inl e \<Rightarrow> Inl e
      | Inr args \<Rightarrow>
          (case imagenet_main cl of
             Inl e \<Rightarrow> Inl e
           | Inr g \<Rightarrow>
               (case imagenet_Model gpu_available
                       (if eval_only args then ''NCHW'' else data_format args) of
                  Inl e \<Rightarrow> Inl e
                | Inr m \<Rightarrow> imagenet_build_graph fw standardize g m vs img label)))"

subsection \<open>Runs of the CIFAR-10 graph, and what the properties compare it with\<close>

text \<open>
  A sequence of session runs on the graph of one model, with a GPU: each run is a training
  step or an inference step on one batch, and leaves its variables to the next.
\<close>

fun cifar_steps ::
    "env \<Rightarrow> real \<Rightarrow> int \<Rightarrow> (bool \<times> tensor \<times> label) list \<Rightarrow> variables \<Rightarrow> error + variables" where
  "cifar_steps fw eps n [] vs = Inr vs"
| "cifar_steps fw eps n ((is_training, img, label) # rest) vs =
     (case cifar_build_graph fw True eps n is_training vs img label of
        Inl e \<Rightarrow> Inl e
      | Inr g \<Rightarrow> cifar_steps fw eps n rest (variables (g_build g)))"

text \<open>Every variable of the store holds 0 or 1.\<close>

definition binary_gates :: "variables \<Rightarrow> bool" where
  "binary_gates vs = (\<forall>k v. vs k = Some v \<longrightarrow> var_value v = 0 \<or> var_value v = 1)"

text \<open>No variable of the store holds 0: no block is discarded.\<close>

definition no_gate_closed :: "variables \<Rightarrow> bool" where
  "no_gate_closed vs = (\<forall>k v. vs k = Some v \<longrightarrow> var_value v \<noteq> 0)"

text \<open>
  The names of the blocks of the CIFAR-10 graph, in the order in which \<^verbatim>\<open>_build_graph\<close>
  calls \<^verbatim>\<open>residual\<close>.
\<close>

definition cifar_block_names :: "int \<Rightarrow> string list" where
  "cifar_block_names n =
     (''res1.0'' # map (\<lambda>k. ''res1.'' @ str k) (range1 n)) @
     (''res2.0'' # map (\<lambda>k. ''res2.'' @ str k) (range1 n)) @
     (''res3.0'' # map (\<lambda>k. ''res3.'' @ str k) (range1 n))"

text \<open>
  Between two states of a graph under construction, the blocks of the given names have
  run: each has appended to \<^verbatim>\<open>preds\<close> the \<^verbatim>\<open>is_discarded\<close> of the gate it now holds, and
  the gate of every other name is as it was.
\<close>

definition blocks_recorded :: "string list \<Rightarrow> build \<Rightarrow> build \<Rightarrow> bool" where
  "blocks_recorded names st st' =
     (preds st' =
        preds st @ map (\<lambda>name. is_discarded (stored_gate (variables st') name)) names \<and>
      (\<forall>name. name \<notin> set names \<longrightarrow>
         stored_gate (variables st') name = stored_gate (variables st) name))"

text \<open>
  The residual network without gates, after the glossary of the spec: a residual block is
  "a network unit computing output = shortcut(input) + F(input)".  It has the layers and
  the blocks of the CIFAR-10 graph, in the same order, and returns the logits.
\<close>

definition plain_residual :: "env \<Rightarrow> string \<Rightarrow> tensor \<Rightarrow> bool \<Rightarrow> bool \<Rightarrow> error + tensor" where
  "plain_residual fw name l increase_dim first =
     (if length (shape l) \<le> 1 then Inl IndexError
      else tadd (cifar_shortcut fw l increase_dim) (cifar_F fw name l increase_dim first))"

fun plain_stage_loop :: "env \<Rightarrow> string \<Rightarrow> int list \<Rightarrow> tensor \<Rightarrow> error + tensor" where
  "plain_stage_loop fw prefix [] l = Inr l"
| "plain_stage_loop fw prefix (k # ks) l =
     (case plain_residual fw (prefix @ str k) l False False of
        Inl e \<Rightarrow> Inl e
      | Inr l1 \<Rightarrow> plain_stage_loop fw prefix ks l1)"

definition plain_resnet :: "env \<Rightarrow> int \<Rightarrow> tensor \<Rightarrow> error + tensor" where
  "plain_resnet fw n img =
     (let image2 = tf_transpose fw (tscale (1 / 128) img) [0, 3, 1, 2];
          l0 = Conv2D fw ''conv0'' image2 16 3 1 nl_BNReLU
      in case plain_residual fw ''res1.0'' l0 False True of
           Inl e \<Rightarrow> Inl e
         | Inr l1 \<Rightarrow>
      (case plain_stage_loop fw ''res1.'' (range1 n) l1 of
           Inl e \<Rightarrow> Inl e
         | Inr l2 \<Rightarrow>
      (case plain_residual fw ''res2.0'' l2 True False of
           Inl e \<Rightarrow> Inl e
         | Inr l3 \<Rightarrow>
      (case plain_stage_loop fw ''res2.'' (range1 n) l3 of
           Inl e \<Rightarrow> Inl e
         | Inr l4 \<Rightarrow>
      (case plain_residual fw ''res3.0'' l4 True False of
           Inl e \<Rightarrow> Inl e
         | Inr l5 \<Rightarrow>
      (case plain_stage_loop fw ''res3.'' (range1 n) l5 of
           Inl e \<Rightarrow> Inl e
         | Inr l6 \<Rightarrow>
             Inr (FullyConnected fw ''linear''
                    (GlobalAvgPooling fw ''gap'' (BNReLU fw ''bnlast'' l6)) 10)))))))"

subsection \<open>A small instance\<close>

text \<open>
  An instance on which the definitions can be run: every layer returns its input, the
  sparsity statistic is the largest absolute entry, the criterion is "below the
  threshold", and a tensor is one image of one pixel and one channel.
\<close>

definition toy_env :: env where
  "toy_env =
     \<lparr> BNReLU = (\<lambda>_ t. t), Conv2D = (\<lambda>_ t _ _ _ _. t), AvgPooling = (\<lambda>_ t _. t),
       MaxPooling = (\<lambda>_ t _ _. t), GlobalAvgPooling = (\<lambda>_ t. t),
       FullyConnected = (\<lambda>_ t _. t), tf_pad = (\<lambda>t _. t), tf_transpose = (\<lambda>t _. t),
       cross_entropy_loss = (\<lambda>_ _. 1), wd_cost = 0, side_output = (\<lambda>_ _ _ _. 2),
       side_output_unlabelled = (\<lambda>_ _ _. 2),
       sparsity = (\<lambda>t. fold max (map abs (entries t)) 0), criterion = (\<lambda>s e. s < e) \<rparr>"

text \<open>
  The same instance with a convolution that doubles every entry, so that the residual
  branch, the shortcut and their sum differ; and a command line for the ImageNet script.
\<close>

definition toy_env2 :: env where
  "toy_env2 = toy_env \<lparr> Conv2D := (\<lambda>_ t _ _ _ _. tscale 2 t) \<rparr>"

definition toy_cmdline :: imagenet_cmdline where
  "toy_cmdline =
     \<lparr> cl_gpu = Some ''0'', cl_data = None, cl_load = None, cl_fake = False,
       cl_data_format = None, cl_depth = None, cl_eval = False, cl_output = None,
       cl_epsilon = None \<rparr>"

definition toy_tensor :: "real \<Rightarrow> tensor" where
  "toy_tensor x = \<lparr> shape = [1, 1, 1, 1], entries = [x] \<rparr>"

definition toy_build :: "variables \<Rightarrow> build" where
  "toy_build vs = \<lparr> variables = vs, preds = [], side_output_cost = [] \<rparr>"

definition toy_gate :: "real \<Rightarrow> variable" where
  "toy_gate w = \<lparr> var_value = w, var_trainable = False \<rparr>"

section \<open>Properties\<close>

subsection \<open>Tensor arithmetic\<close>

lemma map2_add_eq_right:
  "length xs = length ys \<Longrightarrow> map2 (+) (map (\<lambda>x. w * x) xs) ys = (ys :: real list)
     \<longleftrightarrow> w = 0 \<or> (\<forall>x \<in> set xs. x = 0)"
  by (induction xs ys rule: list_induct2) auto

lemma tadd_tscale_eq:
  assumes "shape a = shape b" and "length (entries a) = length (entries b)"
  shows "tadd (tscale w a) b = Inr b \<longleftrightarrow> w = 0 \<or> (\<forall>x \<in> set (entries a). x = 0)"
proof -
  have "tadd (tscale w a) b =
      Inr \<lparr> shape = shape b, entries = map2 (+) (map (\<lambda>x. w * x) (entries a)) (entries b) \<rparr>"
    using assms by (simp add: tadd_def tscale_def)
  moreover have "\<lparr> shape = shape b, entries = es \<rparr> = b \<longleftrightarrow> es = entries b" for es
    by (cases b) auto
  ultimately show ?thesis
    using map2_add_eq_right [OF assms(2), of w] by simp
qed

lemma map2_add_commute: "map2 (+) xs ys = map2 (+) ys (xs :: real list)"
  by (induction xs arbitrary: ys) (auto simp: add.commute split: list.splits, (case_tac ys; simp add: add.commute)+)

lemma tadd_commute: "tadd a b = tadd b a"
  by (auto simp: tadd_def map2_add_commute)

lemma tadd_tscale_Inr:
  "shape a = shape b \<Longrightarrow> length (entries a) = length (entries b) \<Longrightarrow>
     \<exists>s. tadd (tscale w a) b = Inr s"
  by (simp add: tadd_def tscale_def)

subsection \<open>Variables\<close>

lemma stored_gate_cases:
  "stored_gate vs name =
     (case vs (name @ ''/identity'') of None \<Rightarrow> 1 | Some v \<Rightarrow> var_value v)"
  by (simp add: stored_gate_def get_variable_def Let_def split: option.splits)

lemma get_variable_snd:
  "snd (get_variable vs k init tr) =
     (case vs k of None \<Rightarrow> vs(k \<mapsto> \<lparr> var_value = init, var_trainable = tr \<rparr>) | Some v \<Rightarrow> vs)"
  by (simp add: get_variable_def Let_def split: option.splits)

subsection \<open>One block\<close>

lemma cifar_residual_test:
  "1 < length (shape l) \<Longrightarrow>
   cifar_residual fw eps False name l inc first st =
     (case tadd (cifar_F fw name l inc first) (cifar_shortcut fw l inc) of
        Inl e \<Rightarrow> Inl e
      | Inr s \<Rightarrow>
          Inr (if stored_gate (variables st) name = 0 then cifar_shortcut fw l inc else s,
               st \<lparr> variables := snd (get_variable (variables st) (name @ ''/identity'') 1 False),
                    preds := preds st @ [is_discarded (stored_gate (variables st) name)] \<rparr>))"
  by (simp add: cifar_residual_def cifar_F_def cifar_shortcut_def stored_gate_def tf_where_def
      split: prod.splits sum.splits)

lemma cifar_residual_train:
  "1 < length (shape l) \<Longrightarrow>
   cifar_residual fw eps True name l inc first st =
     (case tadd (tscale (strict_identity fw (cifar_F fw name l inc first) eps)
                   (cifar_F fw name l inc first)) (cifar_shortcut fw l inc) of
        Inl e \<Rightarrow> Inl e
      | Inr l2 \<Rightarrow>
          Inr (l2,
               st \<lparr> variables :=
                      assign (snd (get_variable (variables st) (name @ ''/identity'') 1 False))
                        (name @ ''/identity'') (strict_identity fw (cifar_F fw name l inc first) eps),
                    preds := preds st @
                      [is_discarded (strict_identity fw (cifar_F fw name l inc first) eps)] \<rparr>))"
  by (simp add: cifar_residual_def cifar_F_def cifar_shortcut_def Let_def
      split: prod.splits sum.splits)

lemma imagenet_residual_test:
  "1 < length (shape l) \<Longrightarrow>
   imagenet_residual fw eps False scope l ch_out stride preact bb st =
     (case tadd (imagenet_F fw scope l ch_out stride preact bb)
             (imagenet_shortcut fw scope l ch_out stride preact) of
        Inl e \<Rightarrow> Inl e
      | Inr s \<Rightarrow>
          Inr (if stored_gate (variables st) scope = 0
               then imagenet_shortcut fw scope l ch_out stride preact else s,
               st \<lparr> variables := snd (get_variable (variables st) (scope @ ''/identity'') 1 False),
                    preds := preds st @ [is_discarded (stored_gate (variables st) scope)] \<rparr>))"
  by (simp add: imagenet_residual_def imagenet_F_def imagenet_shortcut_def stored_gate_def
      tf_where_def split: prod.splits sum.splits)

lemma imagenet_residual_train:
  "1 < length (shape l) \<Longrightarrow>
   imagenet_residual fw eps True scope l ch_out stride preact bb st =
     (case tadd (tscale (strict_identity fw (imagenet_F fw scope l ch_out stride preact bb) eps)
                   (imagenet_F fw scope l ch_out stride preact bb))
             (imagenet_shortcut fw scope l ch_out stride preact) of
        Inl e \<Rightarrow> Inl e
      | Inr l2 \<Rightarrow>
          Inr (l2,
               st \<lparr> variables :=
                      assign (snd (get_variable (variables st) (scope @ ''/identity'') 1 False))
                        (scope @ ''/identity'')
                        (strict_identity fw (imagenet_F fw scope l ch_out stride preact bb) eps),
                    preds := preds st @
                      [is_discarded
                         (strict_identity fw (imagenet_F fw scope l ch_out stride preact bb) eps)] \<rparr>))"
  by (simp add: imagenet_residual_def imagenet_F_def imagenet_shortcut_def Let_def
      split: prod.splits sum.splits)

lemma stored_gate_assign:
  "stored_gate (assign (snd (get_variable vs (name @ ''/identity'') 1 False))
      (name @ ''/identity'') w) name = w"
  by (simp add: stored_gate_cases assign_def get_variable_def Let_def split: option.splits)

lemma stored_gate_created:
  "stored_gate (snd (get_variable vs (name @ ''/identity'') 1 False)) name' = stored_gate vs name'"
  by (auto simp: stored_gate_cases get_variable_def Let_def split: option.splits)

subsection \<open>The depth of the ImageNet network\<close>

lemma parse_depth_Some:
  "parse_depth (Some d) = (if d \<in> {18, 34, 50, 101, 152} then Inr d else Inl ArgumentError)"
  by (simp add: parse_depth_def depth_choices_def)

lemma imagenet_main_depth:
  "imagenet_main (cl \<lparr> cl_gpu := Some g, cl_depth := Some d \<rparr>) =
     (if d \<in> {18, 34, 50, 101, 152}
      then Inr (imagenet_initial_globals \<lparr> DEPTH := Some d \<rparr>) else Inl ArgumentError)"
  by (simp add: imagenet_main_def imagenet_parse_args_def parse_depth_Some)

text \<open>
  Claim C7.  The ImageNet script accepts a depth only from 18, 34, 50, 101 and 152: with
  any other value of the flag, argument parsing fails and the main block gets no further.
  An accepted depth becomes \<^verbatim>\<open>DEPTH\<close>, and the table lookup in the graph builder then
  yields the block counts and block function of that depth: basicblock with [2,2,2,2] for 18
  and [3,4,6,3] for 34, bottleneck with [3,4,6,3] for 50, [3,4,23,3] for 101 and [3,8,36,3]
  for 152.
\<close>

theorem depth_selects_cfg:
  "main_cfg (cl \<lparr> cl_gpu := Some g, cl_depth := Some d \<rparr>) =
     (if d = 18 then Inr ([2, 2, 2, 2], basicblock)
      else if d = 34 then Inr ([3, 4, 6, 3], basicblock)
      else if d = 50 then Inr ([3, 4, 6, 3], bottleneck)
      else if d = 101 then Inr ([3, 4, 23, 3], bottleneck)
      else if d = 152 then Inr ([3, 8, 36, 3], bottleneck)
      else Inl ArgumentError)"
  by (simp add: main_cfg_def imagenet_main_depth cfg_lookup_def cfg_def
      imagenet_initial_globals_def)

subsection \<open>One block at inference\<close>

lemma cifar_inference_output:
  assumes "1 < length (shape l)"
    and "tadd (cifar_shortcut fw l inc) (cifar_F fw name l inc first) = Inr s"
  shows "map_sum id fst (cifar_residual fw eps False name l inc first st) =
           Inr (if stored_gate (variables st) name = 0 then cifar_shortcut fw l inc else s)"
  using assms by (simp add: cifar_residual_test tadd_commute [of "cifar_F fw name l inc first"])

lemma imagenet_inference_output:
  assumes "1 < length (shape l)"
    and "tadd (imagenet_shortcut fw scope l ch_out stride preact)
           (imagenet_F fw scope l ch_out stride preact bb) = Inr s"
  shows "map_sum id fst (imagenet_residual fw eps False scope l ch_out stride preact bb st) =
           Inr (if stored_gate (variables st) scope = 0
                then imagenet_shortcut fw scope l ch_out stride preact else s)"
  using assms
  by (simp add: imagenet_residual_test
      tadd_commute [of "imagenet_F fw scope l ch_out stride preact bb"])

text \<open>
  The function \<^verbatim>\<open>residual\<close> at inference.  A block it builds returns the shortcut of its input alone when
  the gate its variable holds equals 0.0, and the shortcut plus the residual branch \<open>F\<close>
  of the input otherwise.  It holds for \<^verbatim>\<open>residual\<close> of either script, whenever the
  block can be built at all (the input has a channel dimension and the two summands have
  one shape).
\<close>

theorem inference_gate_selects:
  "(1 < length (shape l) \<longrightarrow>
    tadd (cifar_shortcut fw l inc) (cifar_F fw name l inc first) = Inr s \<longrightarrow>
      map_sum id fst (cifar_residual fw eps False name l inc first st) =
        Inr (if stored_gate (variables st) name = 0 then cifar_shortcut fw l inc else s)) \<and>
   (1 < length (shape l) \<longrightarrow>
    tadd (imagenet_shortcut fw name l ch_out stride preact)
      (imagenet_F fw name l ch_out stride preact bb) = Inr s' \<longrightarrow>
      map_sum id fst (imagenet_residual fw eps False name l ch_out stride preact bb st) =
        Inr (if stored_gate (variables st) name = 0
             then imagenet_shortcut fw name l ch_out stride preact else s'))"
  using cifar_inference_output imagenet_inference_output by blast

subsection \<open>The small instance, evaluated\<close>

lemma toy_simps:
  "BNReLU toy_env = (\<lambda>_ t. t)" "Conv2D toy_env = (\<lambda>_ t _ _ _ _. t)"
  "AvgPooling toy_env = (\<lambda>_ t _. t)" "MaxPooling toy_env = (\<lambda>_ t _ _. t)"
  "GlobalAvgPooling toy_env = (\<lambda>_ t. t)" "FullyConnected toy_env = (\<lambda>_ t _. t)"
  "tf_pad toy_env = (\<lambda>t _. t)" "tf_transpose toy_env = (\<lambda>t _. t)"
  "cross_entropy_loss toy_env = (\<lambda>_ _. 1)" "wd_cost toy_env = 0"
  "side_output toy_env = (\<lambda>_ _ _ _. 2)" "side_output_unlabelled toy_env = (\<lambda>_ _ _. 2)"
  "sparsity toy_env = (\<lambda>t. fold max (map abs (entries t)) 0)"
  "criterion toy_env = (\<lambda>s e. s < e)"
  by (simp_all add: toy_env_def)

lemma toy_cifar_parts:
  "cifar_shortcut toy_env (toy_tensor x) inc = toy_tensor x"
  "cifar_F toy_env name (toy_tensor x) inc first = toy_tensor x"
  by (simp_all add: cifar_shortcut_def cifar_F_def cifar_branch_def cifar_residual_convs_def
      toy_simps)

lemma toy_imagenet_parts:
  "imagenet_shortcut toy_env name (toy_tensor x) ch_out stride preact = toy_tensor x"
  "imagenet_F toy_env name (toy_tensor x) ch_out stride preact bb = toy_tensor x"
  by (simp_all add: imagenet_shortcut_def imagenet_F_def imagenet_preact_def shortcut_def
      imagenet_residual_convs_def toy_simps Let_def)

lemma toy_tadd: "tadd (toy_tensor x) (toy_tensor y) = Inr (toy_tensor (x + y))"
  by (simp add: tadd_def toy_tensor_def)

lemma toy_shape: "length (shape (toy_tensor x)) = 4" "shape (toy_tensor x) = [1, 1, 1, 1]"
  "entries (toy_tensor x) = [x]"
  by (simp_all add: toy_tensor_def)

theorem inference_gate_selects_witness:
  "map_sum id fst (cifar_residual toy_env 2.5 False ''b'' (toy_tensor 3) False False
      (toy_build [''b/identity'' \<mapsto> toy_gate 0])) = Inr (toy_tensor 3) \<and>
   map_sum id fst (cifar_residual toy_env 2.5 False ''b'' (toy_tensor 3) False False
      (toy_build [''b/identity'' \<mapsto> toy_gate 1])) = Inr (toy_tensor 6) \<and>
   map_sum id fst (imagenet_residual toy_env 2.5 False ''b'' (toy_tensor 3) 1 1 ''default'' False
      (toy_build [''b/identity'' \<mapsto> toy_gate 0])) = Inr (toy_tensor 3) \<and>
   map_sum id fst (imagenet_residual toy_env 2.5 False ''b'' (toy_tensor 3) 1 1 ''default'' False
      (toy_build [''b/identity'' \<mapsto> toy_gate 1])) = Inr (toy_tensor 6)"
  using inference_gate_selects [where l = "toy_tensor 3" and fw = toy_env and name = "''b''"
      and inc = False and first = False and s = "toy_tensor 6" and s' = "toy_tensor 6"
      and eps = "2.5" and st = "toy_build [''b/identity'' \<mapsto> toy_gate 0]"
      and ch_out = 1 and stride = 1 and preact = "''default''" and bb = False]
    inference_gate_selects [where l = "toy_tensor 3" and fw = toy_env and name = "''b''"
      and inc = False and first = False and s = "toy_tensor 6" and s' = "toy_tensor 6"
      and eps = "2.5" and st = "toy_build [''b/identity'' \<mapsto> toy_gate 1]"
      and ch_out = 1 and stride = 1 and preact = "''default''" and bb = False]
  by (simp add: toy_cifar_parts toy_imagenet_parts toy_tadd toy_shape stored_gate_cases
      toy_build_def toy_gate_def)

subsection \<open>One block in training\<close>

lemma strict_identity_cases:
  "strict_identity fw l eps = 0 \<longleftrightarrow> criterion fw (sparsity fw l) eps"
  "strict_identity fw l eps = 1 \<longleftrightarrow> \<not> criterion fw (sparsity fw l) eps"
  "strict_identity fw l eps = 0 \<or> strict_identity fw l eps = 1"
  by (simp_all add: strict_identity_def)

lemma cifar_training_gate:
  assumes "1 < length (shape l)"
    and "shape (cifar_F fw name l inc first) = shape (cifar_shortcut fw l inc)"
    and "length (entries (cifar_F fw name l inc first)) =
         length (entries (cifar_shortcut fw l inc))"
  shows "\<exists>out st'.
           cifar_residual fw eps True name l inc first st = Inr (out, st') \<and>
           stored_gate (variables st') name = strict_identity fw (cifar_F fw name l inc first) eps \<and>
           (criterion fw (sparsity fw (cifar_F fw name l inc first)) eps \<longrightarrow>
              stored_gate (variables st') name = 0 \<and> out = cifar_shortcut fw l inc) \<and>
           (stored_gate (variables st') name = 0 \<longrightarrow> out = cifar_shortcut fw l inc) \<and>
           (out = cifar_shortcut fw l inc \<longrightarrow>
              stored_gate (variables st') name = 0 \<or>
              (\<forall>x \<in> set (entries (cifar_F fw name l inc first)). x = 0))"
proof -
  let ?F = "cifar_F fw name l inc first" and ?sc = "cifar_shortcut fw l inc"
  let ?w = "strict_identity fw ?F eps"
  obtain out where out: "tadd (tscale ?w ?F) ?sc = Inr out"
    using tadd_tscale_Inr [OF assms(2,3)] by blast
  have eq: "out = ?sc \<longleftrightarrow> ?w = 0 \<or> (\<forall>x \<in> set (entries ?F). x = 0)"
    using tadd_tscale_eq [OF assms(2,3), of ?w] out by auto
  have crit: "criterion fw (sparsity fw ?F) eps \<Longrightarrow> ?w = 0"
    by (simp add: strict_identity_def)
  show ?thesis
    using assms(1) out eq crit
    by (simp add: cifar_residual_train stored_gate_assign)
qed

lemma imagenet_training_gate:
  assumes "1 < length (shape l)"
    and "shape (imagenet_F fw name l ch_out stride preact bb) =
         shape (imagenet_shortcut fw name l ch_out stride preact)"
    and "length (entries (imagenet_F fw name l ch_out stride preact bb)) =
         length (entries (imagenet_shortcut fw name l ch_out stride preact))"
  shows "\<exists>out st'.
           imagenet_residual fw eps True name l ch_out stride preact bb st = Inr (out, st') \<and>
           stored_gate (variables st') name =
             strict_identity fw (imagenet_F fw name l ch_out stride preact bb) eps \<and>
           (criterion fw (sparsity fw (imagenet_F fw name l ch_out stride preact bb)) eps \<longrightarrow>
              stored_gate (variables st') name = 0 \<and>
              out = imagenet_shortcut fw name l ch_out stride preact) \<and>
           (stored_gate (variables st') name = 0 \<longrightarrow>
              out = imagenet_shortcut fw name l ch_out stride preact) \<and>
           (out = imagenet_shortcut fw name l ch_out stride preact \<longrightarrow>
              stored_gate (variables st') name = 0 \<or>
              (\<forall>x \<in> set (entries (imagenet_F fw name l ch_out stride preact bb)). x = 0))"
proof -
  let ?F = "imagenet_F fw name l ch_out stride preact bb"
  let ?sc = "imagenet_shortcut fw name l ch_out stride preact"
  let ?w = "strict_identity fw ?F eps"
  obtain out where out: "tadd (tscale ?w ?F) ?sc = Inr out"
    using tadd_tscale_Inr [OF assms(2,3)] by blast
  have eq: "out = ?sc \<longleftrightarrow> ?w = 0 \<or> (\<forall>x \<in> set (entries ?F). x = 0)"
    using tadd_tscale_eq [OF assms(2,3), of ?w] out by auto
  have crit: "criterion fw (sparsity fw ?F) eps \<Longrightarrow> ?w = 0"
    by (simp add: strict_identity_def)
  show ?thesis
    using assms(1) out eq crit
    by (simp add: imagenet_residual_train stored_gate_assign)
qed

text \<open>
  The function \<^verbatim>\<open>residual\<close> in training.  A block it builds assigns its gate the value of
  \<^verbatim>\<open>strict_identity\<close> on the residual branch and returns gate times branch plus
  shortcut.  When the criterion is satisfied the assigned gate is 0, and whenever the
  assigned gate is 0 the output is the shortcut of the input, exactly: the block is
  skipped.  (The other way round, an output equal to the shortcut means a gate of 0 or a
  residual branch that is zero everywhere.)  It holds for \<^verbatim>\<open>residual\<close> of either
  script, whenever the two summands have one shape.
\<close>

theorem training_gate_zeroes_branch:
  "(1 < length (shape l) \<and>
    shape (cifar_F fw name l inc first) = shape (cifar_shortcut fw l inc) \<and>
    length (entries (cifar_F fw name l inc first)) = length (entries (cifar_shortcut fw l inc))
    \<longrightarrow>
    (\<exists>out st'.
       cifar_residual fw eps True name l inc first st = Inr (out, st') \<and>
       stored_gate (variables st') name = strict_identity fw (cifar_F fw name l inc first) eps \<and>
       (criterion fw (sparsity fw (cifar_F fw name l inc first)) eps \<longrightarrow>
          stored_gate (variables st') name = 0 \<and> out = cifar_shortcut fw l inc) \<and>
       (stored_gate (variables st') name = 0 \<longrightarrow> out = cifar_shortcut fw l inc) \<and>
       (out = cifar_shortcut fw l inc \<longrightarrow>
          stored_gate (variables st') name = 0 \<or>
          (\<forall>x \<in> set (entries (cifar_F fw name l inc first)). x = 0)))) \<and>
   (1 < length (shape l) \<and>
    shape (imagenet_F fw name l ch_out stride preact bb) =
      shape (imagenet_shortcut fw name l ch_out stride preact) \<and>
    length (entries (imagenet_F fw name l ch_out stride preact bb)) =
      length (entries (imagenet_shortcut fw name l ch_out stride preact))
    \<longrightarrow>
    (\<exists>out st'.
       imagenet_residual fw eps True name l ch_out stride preact bb st = Inr (out, st') \<and>
       stored_gate (variables st') name =
         strict_identity fw (imagenet_F fw name l ch_out stride preact bb) eps \<and>
       (criterion fw (sparsity fw (imagenet_F fw name l ch_out stride preact bb)) eps \<longrightarrow>
          stored_gate (variables st') name = 0 \<and>
          out = imagenet_shortcut fw name l ch_out stride preact) \<and>
       (stored_gate (variables st') name = 0 \<longrightarrow>
          out = imagenet_shortcut fw name l ch_out stride preact) \<and>
       (out = imagenet_shortcut fw name l ch_out stride preact \<longrightarrow>
          stored_gate (variables st') name = 0 \<or>
          (\<forall>x \<in> set (entries (imagenet_F fw name l ch_out stride preact bb)). x = 0))))"
  using cifar_training_gate [of l fw name inc first eps st]
    imagenet_training_gate [of l fw name ch_out stride preact bb eps st]
  by blast

lemma toy_strict_identity:
  "strict_identity toy_env (toy_tensor x) eps = (if \<bar>x\<bar> < eps then 0 else 1)"
  by (simp add: strict_identity_def toy_simps toy_shape)

lemma toy_tscale: "tscale c (toy_tensor x) = toy_tensor (c * x)"
  by (simp add: tscale_def toy_tensor_def)

lemma toy_tensor_eq: "toy_tensor x = toy_tensor y \<longleftrightarrow> x = y"
  by (simp add: toy_tensor_def)

lemma toy_cifar_train:
  "cifar_residual toy_env eps True name (toy_tensor x) inc first st =
     Inr (toy_tensor ((if \<bar>x\<bar> < eps then 0 else 1) * x + x),
          st \<lparr> variables :=
                 assign (snd (get_variable (variables st) (name @ ''/identity'') 1 False))
                   (name @ ''/identity'') (if \<bar>x\<bar> < eps then 0 else 1),
               preds := preds st @ [is_discarded (if \<bar>x\<bar> < eps then 0 else 1)] \<rparr>)"
  by (simp add: cifar_residual_train toy_shape toy_cifar_parts toy_strict_identity toy_tscale
      toy_tadd)

lemma toy_imagenet_train:
  "imagenet_residual toy_env eps True name (toy_tensor x) ch_out stride preact bb st =
     Inr (toy_tensor ((if \<bar>x\<bar> < eps then 0 else 1) * x + x),
          st \<lparr> variables :=
                 assign (snd (get_variable (variables st) (name @ ''/identity'') 1 False))
                   (name @ ''/identity'') (if \<bar>x\<bar> < eps then 0 else 1),
               preds := preds st @ [is_discarded (if \<bar>x\<bar> < eps then 0 else 1)] \<rparr>)"
  by (simp add: imagenet_residual_train toy_shape toy_imagenet_parts toy_strict_identity
      toy_tscale toy_tadd)

theorem training_gate_zeroes_branch_witness:
  "map_sum id fst (cifar_residual toy_env 2.5 True ''b'' (toy_tensor 2) False False
      (toy_build Map.empty)) = Inr (toy_tensor 2) \<and>
   map_sum id (\<lambda>r. stored_gate (variables (snd r)) ''b'')
     (cifar_residual toy_env 2.5 True ''b'' (toy_tensor 2) False False (toy_build Map.empty)) =
     Inr 0 \<and>
   map_sum id fst (imagenet_residual toy_env 2.5 True ''b'' (toy_tensor 2) 1 1 ''default'' False
      (toy_build Map.empty)) = Inr (toy_tensor 2) \<and>
   map_sum id (\<lambda>r. stored_gate (variables (snd r)) ''b'')
     (imagenet_residual toy_env 2.5 True ''b'' (toy_tensor 2) 1 1 ''default'' False
        (toy_build Map.empty)) = Inr 0"
  using training_gate_zeroes_branch [where l = "toy_tensor 2" and fw = toy_env
      and name = "''b''" and inc = False and first = False and eps = "2.5"
      and st = "toy_build Map.empty" and ch_out = 1 and stride = 1 and preact = "''default''"
      and bb = False]
  by (simp add: toy_cifar_train toy_imagenet_train toy_cifar_parts toy_imagenet_parts toy_shape
      toy_simps stored_gate_assign)

subsection \<open>The gate variable of a block\<close>

lemma created_other: "k \<noteq> key \<Longrightarrow> snd (get_variable vs key init tr) k = vs k"
  by (simp add: get_variable_def Let_def split: option.splits)

lemma assign_other: "k \<noteq> key \<Longrightarrow> assign vs key w k = vs k"
  by (simp add: assign_def split: option.splits)

lemma created_flag:
  "\<exists>v. snd (get_variable vs key 1 False) key = Some v \<and>
       var_trainable v = (case vs key of None \<Rightarrow> False | Some v0 \<Rightarrow> var_trainable v0)"
  by (simp add: get_variable_def Let_def split: option.splits)

lemma assigned_flag:
  "\<exists>v. assign (snd (get_variable vs key 1 False)) key w key = Some v \<and>
       var_trainable v = (case vs key of None \<Rightarrow> False | Some v0 \<Rightarrow> var_trainable v0)"
  by (simp add: assign_def get_variable_def Let_def split: option.splits)

lemma cifar_residual_variables:
  assumes "cifar_residual fw eps tr name l inc first st = Inr (out, st')"
  shows "variables st' =
           (if tr
            then assign (snd (get_variable (variables st) (name @ ''/identity'') 1 False))
                   (name @ ''/identity'') (strict_identity fw (cifar_F fw name l inc first) eps)
            else snd (get_variable (variables st) (name @ ''/identity'') 1 False))"
proof -
  have len: "1 < length (shape l)"
    using assms by (simp add: cifar_residual_def split: if_splits)
  show ?thesis
  proof (cases tr)
    case True
    with assms len show ?thesis
      by (auto simp: cifar_residual_train split: sum.splits)
  next
    case False
    with assms len show ?thesis
      by (auto simp: cifar_residual_test split: sum.splits)
  qed
qed

lemma imagenet_residual_variables:
  assumes "imagenet_residual fw eps tr name l ch_out stride preact bb st = Inr (out, st')"
  shows "variables st' =
           (if tr
            then assign (snd (get_variable (variables st) (name @ ''/identity'') 1 False))
                   (name @ ''/identity'')
                   (strict_identity fw (imagenet_F fw name l ch_out stride preact bb) eps)
            else snd (get_variable (variables st) (name @ ''/identity'') 1 False))"
proof -
  have len: "1 < length (shape l)"
    using assms by (simp add: imagenet_residual_def split: if_splits)
  show ?thesis
  proof (cases tr)
    case True
    with assms len show ?thesis
      by (auto simp: imagenet_residual_train split: sum.splits)
  next
    case False
    with assms len show ?thesis
      by (auto simp: imagenet_residual_test split: sum.splits)
  qed
qed

lemma gate_lifecycle:
  assumes "vs' =
      (if tr then assign (snd (get_variable vs (name @ ''/identity'') 1 False))
                    (name @ ''/identity'') w
       else snd (get_variable vs (name @ ''/identity'') 1 False))"
  shows "(\<forall>k. k \<noteq> name @ ''/identity'' \<longrightarrow> vs' k = vs k) \<and>
         (\<exists>v. vs' (name @ ''/identity'') = Some v \<and>
              var_trainable v =
                (case vs (name @ ''/identity'') of None \<Rightarrow> False | Some v0 \<Rightarrow> var_trainable v0)) \<and>
         stored_gate vs' name = (if tr then w else stored_gate vs name)"
  using assms created_flag [of vs "name @ ''/identity''"]
    assigned_flag [of vs "name @ ''/identity''" w]
  by (simp add: created_other assign_other stored_gate_assign stored_gate_created)

text \<open>
  The gate of \<^verbatim>\<open>residual\<close>.  A block it builds has one gate variable,
  \<^verbatim>\<open>identity\<close> in the scope of the
  block.  A step of the block leaves every other variable as it was; the gate exists
  afterwards, not trainable when the block created it and with the flag it had otherwise;
  a training step leaves in it the value of \<^verbatim>\<open>strict_identity\<close> on the residual branch
  of that step's input; a step outside training leaves its value as it was.  It holds for
  \<^verbatim>\<open>residual\<close> of either script.
\<close>

theorem gate_variable_lifecycle:
  "(cifar_residual fw eps tr name l inc first st = Inr (out, st') \<longrightarrow>
      (\<forall>k. k \<noteq> name @ ''/identity'' \<longrightarrow> variables st' k = variables st k) \<and>
      (\<exists>v. variables st' (name @ ''/identity'') = Some v \<and>
           var_trainable v =
             (case variables st (name @ ''/identity'') of
                None \<Rightarrow> False | Some v0 \<Rightarrow> var_trainable v0)) \<and>
      stored_gate (variables st') name =
        (if tr then strict_identity fw (cifar_F fw name l inc first) eps
         else stored_gate (variables st) name)) \<and>
   (imagenet_residual fw eps tr name l ch_out stride preact bb st = Inr (out, st') \<longrightarrow>
      (\<forall>k. k \<noteq> name @ ''/identity'' \<longrightarrow> variables st' k = variables st k) \<and>
      (\<exists>v. variables st' (name @ ''/identity'') = Some v \<and>
           var_trainable v =
             (case variables st (name @ ''/identity'') of
                None \<Rightarrow> False | Some v0 \<Rightarrow> var_trainable v0)) \<and>
      stored_gate (variables st') name =
        (if tr then strict_identity fw (imagenet_F fw name l ch_out stride preact bb) eps
         else stored_gate (variables st) name))"
proof (intro conjI impI)
  assume r: "cifar_residual fw eps tr name l inc first st = Inr (out, st')"
  note g = gate_lifecycle [OF cifar_residual_variables [OF r]]
  from g show "\<forall>k. k \<noteq> name @ ''/identity'' \<longrightarrow> variables st' k = variables st k"
    by blast
  from g show "\<exists>v. variables st' (name @ ''/identity'') = Some v \<and>
      var_trainable v =
        (case variables st (name @ ''/identity'') of None \<Rightarrow> False | Some v0 \<Rightarrow> var_trainable v0)"
    by blast
  from g show "stored_gate (variables st') name =
      (if tr then strict_identity fw (cifar_F fw name l inc first) eps
       else stored_gate (variables st) name)"
    by blast
next
  assume r: "imagenet_residual fw eps tr name l ch_out stride preact bb st = Inr (out, st')"
  note g = gate_lifecycle [OF imagenet_residual_variables [OF r]]
  from g show "\<forall>k. k \<noteq> name @ ''/identity'' \<longrightarrow> variables st' k = variables st k"
    by blast
  from g show "\<exists>v. variables st' (name @ ''/identity'') = Some v \<and>
      var_trainable v =
        (case variables st (name @ ''/identity'') of None \<Rightarrow> False | Some v0 \<Rightarrow> var_trainable v0)"
    by blast
  from g show "stored_gate (variables st') name =
      (if tr then strict_identity fw (imagenet_F fw name l ch_out stride preact bb) eps
       else stored_gate (variables st) name)"
    by blast
qed

lemma toy_cifar_test:
  "cifar_residual toy_env eps False name (toy_tensor x) inc first st =
     Inr (if stored_gate (variables st) name = 0 then toy_tensor x else toy_tensor (x + x),
          st \<lparr> variables := snd (get_variable (variables st) (name @ ''/identity'') 1 False),
               preds := preds st @ [is_discarded (stored_gate (variables st) name)] \<rparr>)"
  by (simp add: cifar_residual_test toy_shape toy_cifar_parts toy_tadd)

lemma toy_imagenet_test:
  "imagenet_residual toy_env eps False name (toy_tensor x) ch_out stride preact bb st =
     Inr (if stored_gate (variables st) name = 0 then toy_tensor x else toy_tensor (x + x),
          st \<lparr> variables := snd (get_variable (variables st) (name @ ''/identity'') 1 False),
               preds := preds st @ [is_discarded (stored_gate (variables st) name)] \<rparr>)"
  by (simp add: imagenet_residual_test toy_shape toy_imagenet_parts toy_tadd)

lemma fresh_assign:
  "assign (snd (get_variable Map.empty k 1 False)) k w = [k \<mapsto> toy_gate w]"
  by (simp add: assign_def get_variable_def Let_def toy_gate_def)

lemma fresh_created: "snd (get_variable Map.empty k 1 False) = [k \<mapsto> toy_gate 1]"
  by (simp add: get_variable_def Let_def toy_gate_def)

theorem gate_variable_lifecycle_witness:
  "cifar_residual toy_env 2.5 True ''b'' (toy_tensor 2) False False (toy_build Map.empty) =
     Inr (toy_tensor 2,
          \<lparr> variables = [''b/identity'' \<mapsto> toy_gate 0], preds = [1], side_output_cost = [] \<rparr>) \<and>
   imagenet_residual toy_env 2.5 True ''b'' (toy_tensor 2) 1 1 ''default'' False
       (toy_build Map.empty) =
     Inr (toy_tensor 2,
          \<lparr> variables = [''b/identity'' \<mapsto> toy_gate 0], preds = [1], side_output_cost = [] \<rparr>) \<and>
   stored_gate [''b/identity'' \<mapsto> toy_gate 0] ''b'' = strict_identity toy_env (toy_tensor 2) 2.5"
  using gate_variable_lifecycle [where fw = toy_env and eps = "2.5" and tr = True
      and name = "''b''" and l = "toy_tensor 2" and inc = False and first = False
      and st = "toy_build Map.empty" and out = "toy_tensor 2"
      and st' = "\<lparr> variables = [''b/identity'' \<mapsto> toy_gate 0], preds = [1],
                   side_output_cost = [] \<rparr>"
      and ch_out = 1 and stride = 1 and preact = "''default''" and bb = False]
  by (simp add: toy_cifar_train toy_imagenet_train toy_build_def fresh_assign
      is_discarded_def tf_where_def toy_strict_identity stored_gate_cases toy_gate_def)

subsection \<open>The epsilon flag\<close>

lemma cifar_main_epsilon:
  "map_sum id cifar_EPSILON (cifar_main float (cl \<lparr> c_epsilon := Some s \<rparr>)) =
     (if s = [] then Inr 2.5
      else case float s of None \<Rightarrow> Inl ValueError | Some e \<Rightarrow> Inr e)"
  by (simp add: cifar_main_def cifar_initial_globals_def Let_def split: option.splits)

lemma imagenet_main_epsilon:
  "map_sum id imagenet_EPSILON (imagenet_main cl) =
     (case imagenet_parse_args cl of Inl e \<Rightarrow> Inl e | Inr args \<Rightarrow> Inr 2)"
  by (simp add: imagenet_main_def imagenet_initial_globals_def split: sum.splits)

text \<open>
  Claim C3.  The CIFAR-10 script does what the claim says: a non-empty \<^verbatim>\<open>--epsilon\<close>
  becomes \<^verbatim>\<open>EPSILON\<close>, the threshold its blocks pass to \<^verbatim>\<open>strict_identity\<close>.  The ImageNet
  script does not: its main block never reads \<^verbatim>\<open>args.epsilon\<close>, and \<^verbatim>\<open>EPSILON\<close>, which
  \<^verbatim>\<open>residual\<close> passes to \<^verbatim>\<open>strict_identity\<close>, is 2.0 after every accepted command line.
\<close>

theorem imagenet_epsilon_flag_ignored:
  "map_sum id imagenet_EPSILON
     (imagenet_main (cl \<lparr> cl_gpu := Some g, cl_depth := None, cl_epsilon := Some e \<rparr>)) = Inr 2 \<and>
   map_sum id epsilon
     (imagenet_parse_args (cl \<lparr> cl_gpu := Some g, cl_depth := None, cl_epsilon := Some e \<rparr>)) =
     Inr e \<and>
   map_sum id cifar_EPSILON (cifar_main float (cl' \<lparr> c_epsilon := Some (c # s) \<rparr>)) =
     (case float (c # s) of None \<Rightarrow> Inl ValueError | Some e' \<Rightarrow> Inr e')"
  by (simp add: imagenet_main_epsilon cifar_main_epsilon imagenet_parse_args_def parse_depth_def)

subsection \<open>The assertion on the GPU\<close>

lemma cifar_residual_error:
  "cifar_residual fw eps tr name l inc first st = Inl e \<Longrightarrow> e = IndexError \<or> e = ShapeError"
  by (auto simp: cifar_residual_def tadd_def Let_def split: if_splits prod.splits sum.splits)

lemma cifar_stage_loop_error:
  "cifar_stage_loop fw eps tr prefix ks l st = Inl e \<Longrightarrow> e = IndexError \<or> e = ShapeError"
proof (induction ks arbitrary: l st)
  case Nil
  then show ?case by simp
next
  case (Cons k ks)
  then show ?case
    by (auto split: sum.splits prod.splits dest: cifar_residual_error)
qed

lemma cifar_stage2_loop_error:
  "cifar_stage2_loop fw eps tr n label ks l st = Inl e \<Longrightarrow> e = IndexError \<or> e = ShapeError"
proof (induction ks arbitrary: l st)
  case Nil
  then show ?case by simp
next
  case (Cons k ks)
  then show ?case
    by (auto split: sum.splits prod.splits if_splits dest: cifar_residual_error)
qed

lemma cifar_build_graph_no_gpu:
  "\<not> gpu_ok \<Longrightarrow> cifar_build_graph fw gpu_ok eps n tr vs img label = Inl AssertionError"
  by (simp add: cifar_build_graph_def)

lemma cifar_build_graph_gpu:
  assumes "gpu_ok"
  shows "cifar_build_graph fw gpu_ok eps n tr vs img label \<noteq> Inl AssertionError"
proof
  assume a: "cifar_build_graph fw gpu_ok eps n tr vs img label = Inl AssertionError"
  from a assms show False
    unfolding cifar_build_graph_def Let_def
    by (auto simp: add_n_def weigh_side_costs_def
        split: sum.splits prod.splits if_splits
        dest: cifar_residual_error cifar_stage_loop_error cifar_stage2_loop_error)
qed

lemma imagenet_build_graph_error:
  "imagenet_build_graph fw sd g m vs img label \<noteq> Inl AssertionError"
  unfolding imagenet_build_graph_def Let_def
  by (auto simp: cfg_lookup_def weigh_side_costs_def
      split: sum.splits prod.splits if_splits option.splits)

lemma imagenet_parse_args_error:
  "imagenet_parse_args cl \<noteq> Inl AssertionError"
  by (auto simp: imagenet_parse_args_def parse_depth_def split: option.splits sum.splits if_splits)

text \<open>
  Claim C8.  The CIFAR-10 graph fails with the assertion, before anything of the graph is
  built, exactly when no GPU is available.  \<^verbatim>\<open>Model.__init__\<close> of the ImageNet script
  fails with the assertion exactly when its \<^verbatim>\<open>data_format\<close> is \<^verbatim>\<open>'NCHW'\<close> and no GPU is
  available, and makes the model for any other format whatever the GPU; a run of that
  script ends in the assertion exactly when the format of its model is \<^verbatim>\<open>'NCHW'\<close> (always
  so under \<^verbatim>\<open>--eval\<close>) and no GPU is available, and then no graph is built.
\<close>

theorem gpu_asserted_for_nchw:
  "(cifar_build_graph fw gpu_ok eps n tr vs img label = Inl AssertionError) = (\<not> gpu_ok) \<and>
   imagenet_Model gpu_ok fmt =
     (if fmt = ''NCHW'' \<and> \<not> gpu_ok then Inl AssertionError else Inr \<lparr> model_data_format = fmt \<rparr>) \<and>
   (imagenet_run cl fw sd gpu_ok vs img label = Inl AssertionError) =
     (\<exists>args. imagenet_parse_args cl = Inr args \<and>
        (eval_only args \<or> data_format args = ''NCHW'') \<and> \<not> gpu_ok)"
proof (intro conjI)
  show "(cifar_build_graph fw gpu_ok eps n tr vs img label = Inl AssertionError) = (\<not> gpu_ok)"
    using cifar_build_graph_no_gpu [of gpu_ok] cifar_build_graph_gpu [of gpu_ok] by blast
  show "imagenet_Model gpu_ok fmt =
     (if fmt = ''NCHW'' \<and> \<not> gpu_ok then Inl AssertionError else Inr \<lparr> model_data_format = fmt \<rparr>)"
    by (simp add: imagenet_Model_def)
  show "(imagenet_run cl fw sd gpu_ok vs img label = Inl AssertionError) =
     (\<exists>args. imagenet_parse_args cl = Inr args \<and>
        (eval_only args \<or> data_format args = ''NCHW'') \<and> \<not> gpu_ok)"
    using imagenet_parse_args_error [of cl]
    by (auto simp: imagenet_run_def imagenet_main_def imagenet_Model_def
        imagenet_build_graph_error split: sum.splits if_splits)
qed


theorem gpu_asserted_for_nchw_witness:
  "cifar_build_graph toy_env False 2.5 18 True Map.empty (toy_tensor 1) [] = Inl AssertionError \<and>
   imagenet_Model False ''NCHW'' = Inl AssertionError \<and>
   imagenet_Model False ''NHWC'' = Inr \<lparr> model_data_format = ''NHWC'' \<rparr> \<and>
   imagenet_Model True ''NCHW'' = Inr \<lparr> model_data_format = ''NCHW'' \<rparr>"
  using gpu_asserted_for_nchw [of toy_env False "2.5" 18 True Map.empty "toy_tensor 1" "[]"
      "''NCHW''"]
    gpu_asserted_for_nchw [of toy_env False "2.5" 18 True Map.empty "toy_tensor 1" "[]"
      "''NHWC''"]
    gpu_asserted_for_nchw [of toy_env True "2.5" 18 True Map.empty "toy_tensor 1" "[]"
      "''NCHW''"]
  by simp

subsection \<open>The side classification head\<close>

lemma cifar_residual_side:
  "cifar_residual fw eps tr name l inc first st = Inr (l', st') \<Longrightarrow>
     side_output_cost st' = side_output_cost st"
  by (auto simp: cifar_residual_def Let_def split: if_splits prod.splits sum.splits)

lemma cifar_stage_loop_side:
  "cifar_stage_loop fw eps tr prefix ks l st = Inr (l', st') \<Longrightarrow>
     side_output_cost st' = side_output_cost st"
proof (induction ks arbitrary: l st)
  case Nil
  then show ?case by simp
next
  case (Cons k ks)
  then show ?case
    by (auto split: sum.splits prod.splits dest: cifar_residual_side)
qed

lemma cifar_stage2_loop_side:
  "cifar_stage2_loop fw eps tr n label ks l st = Inr (l', st') \<Longrightarrow>
     \<exists>ls. side_output_cost st' =
            side_output_cost st @
              map (\<lambda>t. side_output fw (''res2.'' @ str (n div 2)) t label 10) ls \<and>
          length ls = length (filter (\<lambda>k. k = n div 2) ks)"
proof (induction ks arbitrary: l st)
  case Nil
  then show ?case by simp
next
  case (Cons k ks)
  from Cons.prems obtain l1 st1 where
    r: "cifar_residual fw eps tr (''res2.'' @ str k) l False False st = Inr (l1, st1)"
    by (auto split: sum.splits)
  note s1 = cifar_residual_side [OF r]
  show ?case
  proof (cases "k = n div 2")
    case True
    let ?st2 = "st1 \<lparr> side_output_cost :=
        side_output_cost st1 @ [side_output fw (''res2.'' @ str k) l1 label 10] \<rparr>"
    from Cons.prems r True
    have "cifar_stage2_loop fw eps tr n label ks l1 ?st2 = Inr (l', st')"
      by simp
    from Cons.IH [OF this] obtain ls where
      ls: "side_output_cost st' =
             side_output_cost ?st2 @
               map (\<lambda>t. side_output fw (''res2.'' @ str (n div 2)) t label 10) ls"
        "length ls = length (filter (\<lambda>k. k = n div 2) ks)"
      by blast
    have "side_output_cost st' =
        side_output_cost st @
          map (\<lambda>t. side_output fw (''res2.'' @ str (n div 2)) t label 10) (l1 # ls)"
      using ls(1) s1 True by simp
    moreover have "length (l1 # ls) = length (filter (\<lambda>k. k = n div 2) (k # ks))"
      using ls(2) True by simp
    ultimately show ?thesis by blast
  next
    case False
    from Cons.prems r False
    have "cifar_stage2_loop fw eps tr n label ks l1 st1 = Inr (l', st')"
      by simp
    from Cons.IH [OF this] s1 False show ?thesis by simp
  qed
qed

lemma distinct_filter_eq:
  "distinct xs \<Longrightarrow> length (filter (\<lambda>k. k = a) xs) = (if a \<in> set xs then 1 else 0)"
  by (induction xs) auto

lemma set_range1: "set (range1 n) = {k. 1 \<le> k \<and> k < n}"
proof -
  have "set (range1 n) = int ` {1 ..< nat n}"
    by (simp add: range1_def)
  also have "\<dots> = {k. 1 \<le> k \<and> k < n}"
  proof (rule set_eqI)
    fix k
    show "k \<in> int ` {1 ..< nat n} \<longleftrightarrow> k \<in> {k. 1 \<le> k \<and> k < n}"
    proof
      assume "k \<in> int ` {1 ..< nat n}"
      then show "k \<in> {k. 1 \<le> k \<and> k < n}" by auto
    next
      assume "k \<in> {k. 1 \<le> k \<and> k < n}"
      then have "nat k \<in> {1 ..< nat n}" and "k = int (nat k)" by auto
      then show "k \<in> int ` {1 ..< nat n}" by blast
    qed
  qed
  finally show ?thesis .
qed

lemma distinct_range1: "distinct (range1 n)"
  by (simp add: range1_def distinct_map)

lemma length_range1: "length (range1 n) = nat n - 1"
  by (simp add: range1_def)

lemma side_heads_in_range1:
  "length (filter (\<lambda>k. k = n div 2) (range1 n)) = (if 2 \<le> n then 1 else 0)"
proof -
  have "n div 2 \<in> set (range1 n) \<longleftrightarrow> 2 \<le> n"
    unfolding set_range1 by auto
  then show ?thesis
    by (simp add: distinct_filter_eq [OF distinct_range1])
qed

subsection \<open>The CIFAR-10 graph, taken apart\<close>

lemma cifar_build_graph_Inr:
  assumes "cifar_build_graph fw gpu_ok eps n tr vs img label = Inr g"
  obtains l1 st1 l2 st2 l3 st3 l4 st4 l5 st5 l6 st6 where
    "gpu_ok"
    "cifar_residual fw eps tr ''res1.0''
       (Conv2D fw ''conv0'' (tf_transpose fw (tscale (1 / 128) img) [0, 3, 1, 2]) 16 3 1 nl_BNReLU)
       False True \<lparr> variables = vs, preds = [], side_output_cost = [] \<rparr> = Inr (l1, st1)"
    "cifar_stage_loop fw eps tr ''res1.'' (range1 n) l1 st1 = Inr (l2, st2)"
    "cifar_residual fw eps tr ''res2.0'' l2 True False st2 = Inr (l3, st3)"
    "cifar_stage2_loop fw eps tr n label (range1 n) l3 st3 = Inr (l4, st4)"
    "cifar_residual fw eps tr ''res3.0'' l4 True False st4 = Inr (l5, st5)"
    "cifar_stage_loop fw eps tr ''res3.'' (range1 n) l5 st5 = Inr (l6, st6)"
    "g_build g = st6"
    "g_logits g =
       FullyConnected fw ''linear'' (GlobalAvgPooling fw ''gap'' (BNReLU fw ''bnlast'' l6)) 10"
    "add_n (preds st6) = Inr (g_discarded_cnt g)"
    "g_all_cnt g = real_of_int (n * 3 + 2)"
    "g_discarded_ratio g = g_discarded_cnt g / g_all_cnt g"
    "weigh_side_costs [0.1] (side_output_cost st6) = Inr (g_side_output_cost g)"
    "add_n (g_side_output_cost g @ [cross_entropy_loss fw (g_logits g) label, wd_cost fw]) =
       Inr (g_cost g)"
  using assms unfolding cifar_build_graph_def Let_def
  by (auto split: if_splits sum.splits prod.splits)

lemma weigh_side_costs_single:
  "weigh_side_costs [w] cs = Inr xs \<Longrightarrow> xs = map (\<lambda>c. w * c) cs"
  by (cases cs; cases "tl cs") (auto simp: weigh_side_costs_def split: if_splits)

lemma cifar_side_heads:
  assumes "cifar_build_graph fw gpu_ok eps n tr vs img label = Inr g"
  shows "\<exists>ls. g_side_output_cost g =
                map (\<lambda>t. 0.1 * side_output fw (''res2.'' @ str (n div 2)) t label 10) ls \<and>
              length ls = (if 2 \<le> n then 1 else 0) \<and>
              g_cost g = sum_list (g_side_output_cost g) +
                         cross_entropy_loss fw (g_logits g) label + wd_cost fw"
proof -
  from assms obtain l1 st1 l2 st2 l3 st3 l4 st4 l5 st5 l6 st6 where
    b1: "cifar_residual fw eps tr ''res1.0''
       (Conv2D fw ''conv0'' (tf_transpose fw (tscale (1 / 128) img) [0, 3, 1, 2]) 16 3 1 nl_BNReLU)
       False True \<lparr> variables = vs, preds = [], side_output_cost = [] \<rparr> = Inr (l1, st1)"
    and b2: "cifar_stage_loop fw eps tr ''res1.'' (range1 n) l1 st1 = Inr (l2, st2)"
    and b3: "cifar_residual fw eps tr ''res2.0'' l2 True False st2 = Inr (l3, st3)"
    and b4: "cifar_stage2_loop fw eps tr n label (range1 n) l3 st3 = Inr (l4, st4)"
    and b5: "cifar_residual fw eps tr ''res3.0'' l4 True False st4 = Inr (l5, st5)"
    and b6: "cifar_stage_loop fw eps tr ''res3.'' (range1 n) l5 st5 = Inr (l6, st6)"
    and w: "weigh_side_costs [0.1] (side_output_cost st6) = Inr (g_side_output_cost g)"
    and c: "add_n (g_side_output_cost g @ [cross_entropy_loss fw (g_logits g) label, wd_cost fw]) =
       Inr (g_cost g)"
    by (rule cifar_build_graph_Inr)
  have "side_output_cost st3 = []"
    using cifar_residual_side [OF b1] cifar_stage_loop_side [OF b2] cifar_residual_side [OF b3]
    by simp
  with cifar_stage2_loop_side [OF b4] obtain ls where
    ls: "side_output_cost st4 =
           map (\<lambda>t. side_output fw (''res2.'' @ str (n div 2)) t label 10) ls"
      "length ls = length (filter (\<lambda>k. k = n div 2) (range1 n))"
    by auto
  have "side_output_cost st6 = side_output_cost st4"
    using cifar_residual_side [OF b5] cifar_stage_loop_side [OF b6] by simp
  with ls(1) weigh_side_costs_single [OF w]
  have "g_side_output_cost g =
      map (\<lambda>t. 0.1 * side_output fw (''res2.'' @ str (n div 2)) t label 10) ls"
    by (simp add: comp_def)
  moreover have "length ls = (if 2 \<le> n then 1 else 0)"
    using ls(2) by (simp add: side_heads_in_range1)
  moreover have "g_cost g = sum_list (g_side_output_cost g) +
      cross_entropy_loss fw (g_logits g) label + wd_cost fw"
    using c by (simp add: add_n_def)
  ultimately show ?thesis by blast
qed

lemma layer_loop_side:
  "\<exists>xs. side_output_cost (snd (layer_loop fw sp name bf features ks l st)) =
          side_output_cost st @ xs \<and>
        length xs = (if name = ''group2'' then length (filter (\<lambda>i. i = sp) ks) else 0)"
proof (induction ks arbitrary: l st)
  case Nil
  then show ?case by simp
next
  case (Cons i ks)
  let ?l1 = "apply_block_func bf fw (name @ ''/block'' @ str i) l features 1 ''default''"
  show ?case
  proof (cases "name = ''group2'' \<and> i = sp")
    case True
    let ?x = "side_output_unlabelled fw (''block'' @ str i) ?l1 1000"
    let ?st1 = "st \<lparr> side_output_cost := side_output_cost st @ [?x] \<rparr>"
    from Cons.IH [of ?l1 ?st1] obtain xs where
      xs: "side_output_cost (snd (layer_loop fw sp name bf features ks ?l1 ?st1)) =
             side_output_cost ?st1 @ xs"
        "length xs = (if name = ''group2'' then length (filter (\<lambda>i. i = sp) ks) else 0)"
      by blast
    have "side_output_cost (snd (layer_loop fw sp name bf features (i # ks) l st)) =
        side_output_cost st @ (?x # xs)"
      using xs(1) True by (simp add: Let_def)
    moreover have "length (?x # xs) =
        (if name = ''group2'' then length (filter (\<lambda>i. i = sp) (i # ks)) else 0)"
      using xs(2) True by simp
    ultimately show ?thesis by blast
  next
    case False
    from Cons.IH [of ?l1 st] obtain xs where
      xs: "side_output_cost (snd (layer_loop fw sp name bf features ks ?l1 st)) =
             side_output_cost st @ xs"
        "length xs = (if name = ''group2'' then length (filter (\<lambda>i. i = sp) ks) else 0)"
      by blast
    have "side_output_cost (snd (layer_loop fw sp name bf features (i # ks) l st)) =
        side_output_cost st @ xs"
      using xs(1) False by (auto simp: Let_def)
    moreover have "length xs =
        (if name = ''group2'' then length (filter (\<lambda>i. i = sp) (i # ks)) else 0)"
      using xs(2) False by auto
    ultimately show ?thesis by blast
  qed
qed

lemma filter_eq_range1:
  "length (filter (\<lambda>i. i = sp) (range1 n)) = (if 1 \<le> sp \<and> sp < n then 1 else 0)"
  by (simp add: distinct_filter_eq [OF distinct_range1] set_range1)

lemma layer_side:
  "\<exists>xs. side_output_cost (snd (layer fw sp l name bf features count stride first st)) =
          side_output_cost st @ xs \<and>
        length xs =
          (if name = ''group2'' \<and> 0 \<le> sp \<and> sp < max 1 (int count) then 1 else 0)"
proof -
  let ?l0 = "apply_block_func bf fw (name @ ''/block0'') l features stride
      (if first then ''no_preact'' else ''both_preact'')"
  let ?st0 = "if name = ''group2'' \<and> sp = 0
      then st \<lparr> side_output_cost :=
                  side_output_cost st @ [side_output_unlabelled fw ''block0'' ?l0 1000] \<rparr>
      else st"
  obtain xs where
    xs: "side_output_cost (snd (layer_loop fw sp name bf features (range1 (int count)) ?l0 ?st0)) =
           side_output_cost ?st0 @ xs"
      "length xs =
         (if name = ''group2'' then length (filter (\<lambda>i. i = sp) (range1 (int count))) else 0)"
    using layer_loop_side [of fw sp name bf features "range1 (int count)" ?l0 ?st0] by blast
  obtain ys where ys: "side_output_cost ?st0 = side_output_cost st @ ys"
      "length ys = (if name = ''group2'' \<and> sp = 0 then 1 else 0)"
    by (cases "name = ''group2'' \<and> sp = 0") auto
  have "side_output_cost (snd (layer fw sp l name bf features count stride first st)) =
      side_output_cost st @ (ys @ xs)"
    using xs(1) ys(1) by (simp add: layer_def Let_def)
  moreover have "length (ys @ xs) =
      (if name = ''group2'' \<and> 0 \<le> sp \<and> sp < max 1 (int count) then 1 else 0)"
    using xs(2) ys(2) by (auto simp: filter_eq_range1)
  ultimately show ?thesis by blast
qed

lemma cfg_lookup_Inr:
  "cfg_lookup d = Inr (defs, bf) \<Longrightarrow>
     (d = Some 18 \<and> defs = [2, 2, 2, 2] \<and> bf = basicblock) \<or>
     (d = Some 34 \<and> defs = [3, 4, 6, 3] \<and> bf = basicblock) \<or>
     (d = Some 50 \<and> defs = [3, 4, 6, 3] \<and> bf = bottleneck) \<or>
     (d = Some 101 \<and> defs = [3, 4, 23, 3] \<and> bf = bottleneck) \<or>
     (d = Some 152 \<and> defs = [3, 8, 36, 3] \<and> bf = bottleneck)"
  by (auto simp: cfg_lookup_def cfg_def split: option.splits if_splits)

lemma weigh_side_costs_short:
  "length cs \<le> 1 \<Longrightarrow> weigh_side_costs [w] cs = Inr (map (\<lambda>c. w * c) cs)"
  by (cases cs) (auto simp: weigh_side_costs_def)

lemma imagenet_side_heads:
  assumes cfg: "cfg_lookup (DEPTH g) = Inr (defs, bf)"
  shows "\<exists>gr. imagenet_build_graph fw sd g m vs img label = Inr gr \<and>
          i_side_position gr = int (sum_list defs) div 2 - int (sum_list (take 2 defs)) - 1 \<and>
          length (i_side_output_cost gr) =
            (if 0 \<le> i_side_position gr \<and> i_side_position gr < max 1 (int (defs ! 2))
             then 1 else 0)"
proof -
  define sp where "sp = int (sum_list defs) div 2 - int (sum_list (take 2 defs)) - 1"
  define image3 where "image3 =
    (if model_data_format m = ''NCHW''
     then tf_transpose fw (sd (tscale (1 / 255) img)) [0, 3, 1, 2]
     else sd (tscale (1 / 255) img))"
  define st0 where "st0 = \<lparr> variables = vs, preds = [], side_output_cost = [] \<rparr>"
  define l1 where "l1 = MaxPooling fw ''pool0'' (Conv2D fw ''conv0'' image3 64 7 2 nl_BNReLU) 3 2"
  define r2 where "r2 = layer fw sp l1 ''group0'' bf 64 (defs ! 0) 1 True st0"
  define r3 where "r3 = layer fw sp (fst r2) ''group1'' bf 128 (defs ! 1) 2 False (snd r2)"
  define r4 where "r4 = layer fw sp (fst r3) ''group2'' bf 256 (defs ! 2) 2 False (snd r3)"
  define r5 where "r5 = layer fw sp (fst r4) ''group3'' bf 512 (defs ! 3) 2 False (snd r4)"
  have len: "\<not> length defs < 4"
    using cfg_lookup_Inr [OF cfg] by auto
  have s2: "side_output_cost (snd r2) = []"
    using layer_side [of fw sp l1 "''group0''" bf 64 "defs ! 0" 1 True st0]
    by (simp add: r2_def st0_def)
  have s3: "side_output_cost (snd r3) = []"
    using layer_side [of fw sp "fst r2" "''group1''" bf 128 "defs ! 1" 2 False "snd r2"] s2
    by (simp add: r3_def)
  obtain xs where s4: "side_output_cost (snd r4) = xs"
    and lx: "length xs = (if 0 \<le> sp \<and> sp < max 1 (int (defs ! 2)) then 1 else 0)"
    using layer_side [of fw sp "fst r3" "''group2''" bf 256 "defs ! 2" 2 False "snd r3"] s3
    by (auto simp: r4_def)
  have s5: "side_output_cost (snd r5) = xs"
    using layer_side [of fw sp "fst r4" "''group3''" bf 512 "defs ! 3" 2 False "snd r4"] s4
    by (simp add: r5_def)
  have short: "length xs \<le> 1"
    using lx by simp
  have "imagenet_build_graph fw sd g m vs img label =
      Inr \<lparr> i_logits =
              FullyConnected fw ''linear''
                (GlobalAvgPooling fw ''gap'' (BNReLU fw ''bnlast'' (fst r5))) 1000,
            i_side_position = sp,
            i_loss = cross_entropy_loss fw
              (FullyConnected fw ''linear''
                (GlobalAvgPooling fw ''gap'' (BNReLU fw ''bnlast'' (fst r5))) 1000) label,
            i_wd_cost = wd_cost fw,
            i_side_output_cost = map (\<lambda>c. 0.1 * c) xs,
            i_build = snd r5 \<rparr>"
    unfolding imagenet_build_graph_def Let_def
    using cfg len weigh_side_costs_short [OF short, of "0.1"] s5
    by (simp add: split_beta sp_def image3_def st0_def l1_def r2_def r3_def r4_def r5_def)
  then show ?thesis
    using lx by (simp add: sp_def)
qed

lemma imagenet_side_heads_by_depth:
  assumes "d \<in> {18, 34, 50, 101, 152}"
  shows "map_sum id (\<lambda>gr. (i_side_position gr, length (i_side_output_cost gr)))
           (imagenet_build_graph fw sd (g \<lparr> DEPTH := Some d \<rparr>) m vs img label) =
         Inr (if d = 18 then (- 1, 0) else if d = 34 \<or> d = 50 then (0, 1)
              else if d = 101 then (8, 1) else (13, 1))"
proof -
  obtain defs bf where cfg: "cfg_lookup (DEPTH (g \<lparr> DEPTH := Some d \<rparr>)) = Inr (defs, bf)"
    using assms by (auto simp: cfg_lookup_def cfg_def)
  from imagenet_side_heads [OF cfg, of fw sd m vs img label] obtain gr where
    gr: "imagenet_build_graph fw sd (g \<lparr> DEPTH := Some d \<rparr>) m vs img label = Inr gr"
      "i_side_position gr = int (sum_list defs) div 2 - int (sum_list (take 2 defs)) - 1"
      "length (i_side_output_cost gr) =
         (if 0 \<le> i_side_position gr \<and> i_side_position gr < max 1 (int (defs ! 2)) then 1 else 0)"
    by blast
  from cfg_lookup_Inr [OF cfg] assms gr show ?thesis
    by auto
qed

lemma range1_small: "range1 0 = []" "range1 1 = []" "range1 2 = [1]"
  by (simp_all add: range1_def upt_rec)

lemma toy_tscale_img: "tscale (1 / 128) (toy_tensor x) = toy_tensor (x / 128)"
  by (simp add: tscale_def toy_tensor_def)

lemma toy_cifar_one_unit:
  "map_sum id (\<lambda>gr. (g_side_output_cost gr, g_cost gr, preds (g_build gr)))
     (cifar_build_graph toy_env True 2.5 1 True Map.empty (toy_tensor 512) []) =
   Inr ([], 1, [0, 0, 0])"
  by (simp add: cifar_build_graph_def Let_def toy_simps toy_tscale_img toy_cifar_train
      range1_small add_n_def weigh_side_costs_def is_discarded_def tf_where_def)

text \<open>
  Claim C5.  The side head is attached inside a loop over the blocks 1, 2, ... of one
  stage, to the block whose index equals a half of a count.  The CIFAR-10 script attaches
  exactly one head, weighted by 0.1 in the cost, when \<open>n\<close> is at least 2, and none when
  \<open>n\<close> is 1 (the index is 0, the block before the loop).  The ImageNet script attaches
  exactly one for the depths 34, 50, 101 and 152 and none for 18, where \<^verbatim>\<open>SIDE_POSITION\<close>
  is -1.  The theorem evaluates the two configurations without a head: the list of side
  losses is empty, and the CIFAR-10 cost is the classification loss plus the weight decay.
\<close>

theorem side_head_missing:
  "map_sum id (\<lambda>gr. (i_side_position gr, i_side_output_cost gr))
     (imagenet_build_graph fw sd (g \<lparr> DEPTH := Some 18 \<rparr>) m vs img label) = Inr (- 1, []) \<and>
   (case cifar_build_graph fw gpu_ok eps 1 tr vs img label of
      Inl e \<Rightarrow> True
    | Inr gr \<Rightarrow>
        g_side_output_cost gr = [] \<and>
        g_cost gr = cross_entropy_loss fw (g_logits gr) label + wd_cost fw) \<and>
   map_sum id (\<lambda>gr. (g_side_output_cost gr, g_cost gr))
     (cifar_build_graph toy_env True 2.5 1 True Map.empty (toy_tensor 512) []) = Inr ([], 1)"
proof (intro conjI)
  show "map_sum id (\<lambda>gr. (i_side_position gr, i_side_output_cost gr))
     (imagenet_build_graph fw sd (g \<lparr> DEPTH := Some 18 \<rparr>) m vs img label) = Inr (- 1, [])"
    using imagenet_side_heads_by_depth [of 18 fw sd g m vs img label]
    by (cases "imagenet_build_graph fw sd (g \<lparr> DEPTH := Some 18 \<rparr>) m vs img label") auto
  show "case cifar_build_graph fw gpu_ok eps 1 tr vs img label of
      Inl e \<Rightarrow> True
    | Inr gr \<Rightarrow>
        g_side_output_cost gr = [] \<and>
        g_cost gr = cross_entropy_loss fw (g_logits gr) label + wd_cost fw"
  proof (cases "cifar_build_graph fw gpu_ok eps 1 tr vs img label")
    case (Inl e)
    then show ?thesis by simp
  next
    case (Inr gr)
    from cifar_side_heads [OF Inr] show ?thesis
      using Inr by auto
  qed
  show "map_sum id (\<lambda>gr. (g_side_output_cost gr, g_cost gr))
     (cifar_build_graph toy_env True 2.5 1 True Map.empty (toy_tensor 512) []) = Inr ([], 1)"
    using toy_cifar_one_unit
    by (cases "cifar_build_graph toy_env True 2.5 1 True Map.empty (toy_tensor 512) []") auto
qed

subsection \<open>Invariants of the CIFAR-10 graph\<close>

text \<open>
  Whatever holds of the state before a graph is built, is kept by every block and does
  not depend on the side losses collected, holds of the state the graph ends with.
\<close>

lemma cifar_stage_loop_invariant:
  assumes "cifar_stage_loop fw eps tr prefix ks l st = Inr (l', st')"
    and "P st"
    and step: "\<And>name l st l1 st1.
           P st \<Longrightarrow> cifar_residual fw eps tr name l False False st = Inr (l1, st1) \<Longrightarrow> P st1"
  shows "P st'"
  using assms(1,2)
proof (induction ks arbitrary: l st)
  case Nil
  then show ?case by simp
next
  case (Cons k ks)
  from Cons.prems(1) obtain l1 st1 where
    r: "cifar_residual fw eps tr (prefix @ str k) l False False st = Inr (l1, st1)"
    and rest: "cifar_stage_loop fw eps tr prefix ks l1 st1 = Inr (l', st')"
    by (auto split: sum.splits)
  from Cons.IH [OF rest step [OF Cons.prems(2) r]] show ?case .
qed

lemma cifar_stage2_loop_invariant:
  assumes "cifar_stage2_loop fw eps tr n label ks l st = Inr (l', st')"
    and "P st"
    and step: "\<And>name l st l1 st1.
           P st \<Longrightarrow> cifar_residual fw eps tr name l False False st = Inr (l1, st1) \<Longrightarrow> P st1"
    and side: "\<And>st xs. P st \<Longrightarrow> P (st \<lparr> side_output_cost := xs \<rparr>)"
  shows "P st'"
  using assms(1,2)
proof (induction ks arbitrary: l st)
  case Nil
  then show ?case by simp
next
  case (Cons k ks)
  from Cons.prems(1) obtain l1 st1 where
    r: "cifar_residual fw eps tr (''res2.'' @ str k) l False False st = Inr (l1, st1)"
    and rest: "cifar_stage2_loop fw eps tr n label ks l1
        (if k = n div 2
         then st1 \<lparr> side_output_cost :=
                      side_output_cost st1 @ [side_output fw (''res2.'' @ str k) l1 label 10] \<rparr>
         else st1) = Inr (l', st')"
    by (auto split: sum.splits)
  have "P st1" by (rule step [OF Cons.prems(2) r])
  then have "P (if k = n div 2
         then st1 \<lparr> side_output_cost :=
                      side_output_cost st1 @ [side_output fw (''res2.'' @ str k) l1 label 10] \<rparr>
         else st1)"
    by (simp add: side)
  from Cons.IH [OF rest this] show ?case .
qed

lemma cifar_build_graph_invariant:
  assumes "cifar_build_graph fw gpu_ok eps n tr vs img label = Inr g"
    and "P \<lparr> variables = vs, preds = [], side_output_cost = [] \<rparr>"
    and step: "\<And>name l inc first st l1 st1.
           P st \<Longrightarrow> cifar_residual fw eps tr name l inc first st = Inr (l1, st1) \<Longrightarrow> P st1"
    and side: "\<And>st xs. P st \<Longrightarrow> P (st \<lparr> side_output_cost := xs \<rparr>)"
  shows "P (g_build g)"
proof -
  from assms(1) obtain l1 st1 l2 st2 l3 st3 l4 st4 l5 st5 l6 st6 where
    b1: "cifar_residual fw eps tr ''res1.0''
       (Conv2D fw ''conv0'' (tf_transpose fw (tscale (1 / 128) img) [0, 3, 1, 2]) 16 3 1 nl_BNReLU)
       False True \<lparr> variables = vs, preds = [], side_output_cost = [] \<rparr> = Inr (l1, st1)"
    and b2: "cifar_stage_loop fw eps tr ''res1.'' (range1 n) l1 st1 = Inr (l2, st2)"
    and b3: "cifar_residual fw eps tr ''res2.0'' l2 True False st2 = Inr (l3, st3)"
    and b4: "cifar_stage2_loop fw eps tr n label (range1 n) l3 st3 = Inr (l4, st4)"
    and b5: "cifar_residual fw eps tr ''res3.0'' l4 True False st4 = Inr (l5, st5)"
    and b6: "cifar_stage_loop fw eps tr ''res3.'' (range1 n) l5 st5 = Inr (l6, st6)"
    and g: "g_build g = st6"
    by (rule cifar_build_graph_Inr)
  have "P st1" by (rule step [OF assms(2) b1])
  then have "P st2" by (rule cifar_stage_loop_invariant [where P = P, OF b2 _ step])
  then have "P st3" by (rule step [OF _ b3])
  then have "P st4" by (rule cifar_stage2_loop_invariant [where P = P, OF b4 _ step side])
  then have "P st5" by (rule step [OF _ b5])
  then have "P st6" by (rule cifar_stage_loop_invariant [where P = P, OF b6 _ step])
  with g show ?thesis by simp
qed

subsection \<open>Gates are 0 or 1\<close>

lemma binary_gates_empty: "binary_gates Map.empty"
  by (simp add: binary_gates_def)

lemma binary_gates_created: "binary_gates vs \<Longrightarrow> binary_gates (snd (get_variable vs k 1 tr))"
  by (auto simp: binary_gates_def get_variable_def Let_def split: option.splits if_splits)

lemma binary_gates_assign:
  "binary_gates vs \<Longrightarrow> w = 0 \<or> w = 1 \<Longrightarrow> binary_gates (assign vs k w)"
  by (auto simp: binary_gates_def assign_def split: option.splits if_splits)

lemma binary_gates_stored: "binary_gates vs \<Longrightarrow> stored_gate vs name = 0 \<or> stored_gate vs name = 1"
  by (auto simp: binary_gates_def stored_gate_cases split: option.splits)

lemma cifar_residual_binary:
  assumes "binary_gates (variables st)"
    and "cifar_residual fw eps tr name l inc first st = Inr (out, st')"
  shows "binary_gates (variables st')"
  using assms(1) strict_identity_cases(3) [of fw "cifar_F fw name l inc first" eps]
  by (simp add: cifar_residual_variables [OF assms(2)] binary_gates_created binary_gates_assign)

lemma imagenet_residual_binary:
  assumes "binary_gates (variables st)"
    and "imagenet_residual fw eps tr name l ch_out stride preact bb st = Inr (out, st')"
  shows "binary_gates (variables st')"
  using assms(1)
    strict_identity_cases(3) [of fw "imagenet_F fw name l ch_out stride preact bb" eps]
  by (simp add: imagenet_residual_variables [OF assms(2)] binary_gates_created
      binary_gates_assign)

lemma cifar_build_graph_binary:
  assumes "cifar_build_graph fw gpu_ok eps n tr vs img label = Inr g"
    and "binary_gates vs"
  shows "binary_gates (variables (g_build g))"
  by (rule cifar_build_graph_invariant [OF assms(1), where P = "\<lambda>st. binary_gates (variables st)"])
    (simp_all add: assms(2) cifar_residual_binary)

lemma cifar_steps_binary:
  "cifar_steps fw eps n steps vs = Inr vs' \<Longrightarrow> binary_gates vs \<Longrightarrow> binary_gates vs'"
proof (induction steps arbitrary: vs)
  case Nil
  then show ?case by simp
next
  case (Cons step steps)
  obtain tr img label where step: "step = (tr, img, label)"
    by (cases step) auto
  from Cons.prems(1) step obtain g where
    g: "cifar_build_graph fw True eps n tr vs img label = Inr g"
    and rest: "cifar_steps fw eps n steps (variables (g_build g)) = Inr vs'"
    by (auto split: sum.splits)
  from Cons.IH [OF rest cifar_build_graph_binary [OF g Cons.prems(2)]] show ?case .
qed

text \<open>
  The values of a gate.  The gate a training step of \<^verbatim>\<open>residual\<close> assigns is 0 or 1.
  From a freshly initialized model,
  after any sequence of training and inference steps of the CIFAR-10 graph every gate
  variable holds 0 or 1; a step of a block of either script keeps it so; and at inference
  a block with such a gate returns the shortcut alone when the gate is 0 and the shortcut
  plus the residual branch when it is 1.
\<close>

theorem gate_is_zero_or_one:
  "(cifar_steps fw eps n steps Map.empty = Inr vs \<longrightarrow>
      binary_gates vs \<and> (stored_gate vs name = 0 \<or> stored_gate vs name = 1)) \<and>
   (binary_gates (variables st) \<and>
    cifar_residual fw eps tr name l inc first st = Inr (out, st') \<longrightarrow>
      binary_gates (variables st') \<and>
      (stored_gate (variables st') name = 0 \<or> stored_gate (variables st') name = 1)) \<and>
   (binary_gates (variables st) \<and>
    imagenet_residual fw eps tr name l ch_out stride preact bb st = Inr (out, st') \<longrightarrow>
      binary_gates (variables st') \<and>
      (stored_gate (variables st') name = 0 \<or> stored_gate (variables st') name = 1)) \<and>
   (binary_gates (variables st) \<and> 1 < length (shape l) \<and>
    tadd (cifar_shortcut fw l inc) (cifar_F fw name l inc first) = Inr s \<longrightarrow>
      stored_gate (variables st) name = 0 \<and>
        map_sum id fst (cifar_residual fw eps False name l inc first st) =
          Inr (cifar_shortcut fw l inc) \<or>
      stored_gate (variables st) name = 1 \<and>
        map_sum id fst (cifar_residual fw eps False name l inc first st) = Inr s) \<and>
   (binary_gates (variables st) \<and> 1 < length (shape l) \<and>
    tadd (imagenet_shortcut fw name l ch_out stride preact)
      (imagenet_F fw name l ch_out stride preact bb) = Inr s' \<longrightarrow>
      stored_gate (variables st) name = 0 \<and>
        map_sum id fst (imagenet_residual fw eps False name l ch_out stride preact bb st) =
          Inr (imagenet_shortcut fw name l ch_out stride preact) \<or>
      stored_gate (variables st) name = 1 \<and>
        map_sum id fst (imagenet_residual fw eps False name l ch_out stride preact bb st) =
          Inr s')"
proof (intro conjI impI; (elim conjE)?)
  assume "cifar_steps fw eps n steps Map.empty = Inr vs"
  then have "binary_gates vs"
    by (rule cifar_steps_binary) (rule binary_gates_empty)
  then show "binary_gates vs" "stored_gate vs name = 0 \<or> stored_gate vs name = 1"
    by (simp_all add: binary_gates_stored)
next
  assume "binary_gates (variables st)"
    and "cifar_residual fw eps tr name l inc first st = Inr (out, st')"
  then have "binary_gates (variables st')"
    by (rule cifar_residual_binary)
  then show "binary_gates (variables st')"
    "stored_gate (variables st') name = 0 \<or> stored_gate (variables st') name = 1"
    by (simp_all add: binary_gates_stored)
next
  assume "binary_gates (variables st)"
    and "imagenet_residual fw eps tr name l ch_out stride preact bb st = Inr (out, st')"
  then have "binary_gates (variables st')"
    by (rule imagenet_residual_binary)
  then show "binary_gates (variables st')"
    "stored_gate (variables st') name = 0 \<or> stored_gate (variables st') name = 1"
    by (simp_all add: binary_gates_stored)
next
  assume b: "binary_gates (variables st)" and len: "1 < length (shape l)"
    and s: "tadd (cifar_shortcut fw l inc) (cifar_F fw name l inc first) = Inr s"
  from binary_gates_stored [OF b, of name] cifar_inference_output [OF len s, of eps st]
  show "stored_gate (variables st) name = 0 \<and>
        map_sum id fst (cifar_residual fw eps False name l inc first st) =
          Inr (cifar_shortcut fw l inc) \<or>
      stored_gate (variables st) name = 1 \<and>
        map_sum id fst (cifar_residual fw eps False name l inc first st) = Inr s"
    by auto
next
  assume b: "binary_gates (variables st)" and len: "1 < length (shape l)"
    and s: "tadd (imagenet_shortcut fw name l ch_out stride preact)
      (imagenet_F fw name l ch_out stride preact bb) = Inr s'"
  from binary_gates_stored [OF b, of name] imagenet_inference_output [OF len s, of eps st]
  show "stored_gate (variables st) name = 0 \<and>
        map_sum id fst (imagenet_residual fw eps False name l ch_out stride preact bb st) =
          Inr (imagenet_shortcut fw name l ch_out stride preact) \<or>
      stored_gate (variables st) name = 1 \<and>
        map_sum id fst (imagenet_residual fw eps False name l ch_out stride preact bb st) =
          Inr s'"
    by auto
qed

lemma toy_cifar_train_step:
  "cifar_build_graph toy_env True 3 1 True Map.empty (toy_tensor 256) [] =
     Inr \<lparr> g_logits = toy_tensor 2, g_all_cnt = 5, g_discarded_cnt = 3,
           g_discarded_ratio = 3 / 5, g_side_output_cost = [], g_cost = 1,
           g_build =
             \<lparr> variables = [''res1.0/identity'' \<mapsto> toy_gate 0, ''res2.0/identity'' \<mapsto> toy_gate 0,
                             ''res3.0/identity'' \<mapsto> toy_gate 0],
               preds = [1, 1, 1], side_output_cost = [] \<rparr> \<rparr>"
  by (simp add: cifar_build_graph_def Let_def toy_simps toy_tscale_img toy_cifar_train
      range1_small add_n_def weigh_side_costs_def is_discarded_def tf_where_def
      assign_def get_variable_def toy_gate_def)

lemma toy_cifar_test_step:
  "cifar_build_graph toy_env True 3 1 False
       [''res1.0/identity'' \<mapsto> toy_gate 0, ''res2.0/identity'' \<mapsto> toy_gate 0,
        ''res3.0/identity'' \<mapsto> toy_gate 0] (toy_tensor 256) [] =
     Inr \<lparr> g_logits = toy_tensor 2, g_all_cnt = 5, g_discarded_cnt = 3,
           g_discarded_ratio = 3 / 5, g_side_output_cost = [], g_cost = 1,
           g_build =
             \<lparr> variables = [''res1.0/identity'' \<mapsto> toy_gate 0, ''res2.0/identity'' \<mapsto> toy_gate 0,
                             ''res3.0/identity'' \<mapsto> toy_gate 0],
               preds = [1, 1, 1], side_output_cost = [] \<rparr> \<rparr>"
  by (simp add: cifar_build_graph_def Let_def toy_simps toy_tscale_img toy_cifar_test
      range1_small add_n_def weigh_side_costs_def is_discarded_def tf_where_def
      get_variable_def toy_gate_def stored_gate_cases)

lemma toy_gate_simps: "var_value (toy_gate w) = w" "var_trainable (toy_gate w) = False"
  by (simp_all add: toy_gate_def)

theorem gate_is_zero_or_one_witness:
  "cifar_steps toy_env 3 1 [(True, toy_tensor 256, []), (False, toy_tensor 256, [])] Map.empty =
     Inr [''res1.0/identity'' \<mapsto> toy_gate 0, ''res2.0/identity'' \<mapsto> toy_gate 0,
          ''res3.0/identity'' \<mapsto> toy_gate 0] \<and>
   binary_gates [''res1.0/identity'' \<mapsto> toy_gate 0, ''res2.0/identity'' \<mapsto> toy_gate 0,
          ''res3.0/identity'' \<mapsto> toy_gate 0] \<and>
   stored_gate [''res1.0/identity'' \<mapsto> toy_gate 0, ''res2.0/identity'' \<mapsto> toy_gate 0,
          ''res3.0/identity'' \<mapsto> toy_gate 0] ''res2.0'' = 0"
  using gate_is_zero_or_one [where fw = toy_env and eps = 3 and n = 1
      and steps = "[(True, toy_tensor 256, []), (False, toy_tensor 256, [])]"
      and vs = "[''res1.0/identity'' \<mapsto> toy_gate 0, ''res2.0/identity'' \<mapsto> toy_gate 0,
          ''res3.0/identity'' \<mapsto> toy_gate 0]" and name = "''res2.0''"]
  by (simp add: toy_cifar_train_step toy_cifar_test_step stored_gate_cases toy_gate_simps)

subsection \<open>The freshly initialized model\<close>

lemma no_gate_closed_empty: "no_gate_closed Map.empty"
  by (simp add: no_gate_closed_def)

lemma no_gate_closed_created:
  "no_gate_closed vs \<Longrightarrow> no_gate_closed (snd (get_variable vs k 1 tr))"
  by (auto simp: no_gate_closed_def get_variable_def Let_def split: option.splits if_splits)

lemma no_gate_closed_stored: "no_gate_closed vs \<Longrightarrow> stored_gate vs name \<noteq> 0"
  by (auto simp: no_gate_closed_def stored_gate_cases split: option.splits)

lemma cifar_residual_open:
  assumes "no_gate_closed (variables st)"
  shows "cifar_residual fw eps False name l inc first st =
           (case plain_residual fw name l inc first of
              Inl e \<Rightarrow> Inl e
            | Inr t \<Rightarrow>
                Inr (t, st \<lparr> variables :=
                              snd (get_variable (variables st) (name @ ''/identity'') 1 False),
                            preds := preds st @ [0] \<rparr>))"
proof (cases "1 < length (shape l)")
  case True
  then show ?thesis
    using no_gate_closed_stored [OF assms, of name]
    by (simp add: cifar_residual_test plain_residual_def is_discarded_def tf_where_def
        tadd_commute [of "cifar_F fw name l inc first"] split: sum.splits)
next
  case False
  then show ?thesis
    by (simp add: cifar_residual_def plain_residual_def)
qed

lemma cifar_stage_loop_open:
  assumes "no_gate_closed (variables st)"
  shows "(\<exists>e. cifar_stage_loop fw eps False prefix ks l st = Inl e \<and>
              plain_stage_loop fw prefix ks l = Inl e) \<or>
         (\<exists>t st'. cifar_stage_loop fw eps False prefix ks l st = Inr (t, st') \<and>
              plain_stage_loop fw prefix ks l = Inr t \<and>
              no_gate_closed (variables st') \<and>
              preds st' = preds st @ replicate (length ks) 0)"
  using assms
proof (induction ks arbitrary: l st)
  case Nil
  then show ?case by simp
next
  case (Cons k ks)
  show ?case
  proof (cases "plain_residual fw (prefix @ str k) l False False")
    case (Inl e)
    then show ?thesis
      by (simp add: cifar_residual_open [OF Cons.prems])
  next
    case (Inr t)
    let ?st1 = "st \<lparr> variables :=
        snd (get_variable (variables st) ((prefix @ str k) @ ''/identity'') 1 False),
        preds := preds st @ [0] \<rparr>"
    have r: "cifar_residual fw eps False (prefix @ str k) l False False st = Inr (t, ?st1)"
      using Inr by (simp add: cifar_residual_open [OF Cons.prems])
    have "no_gate_closed (variables ?st1)"
      using Cons.prems by (simp add: no_gate_closed_created)
    from Cons.IH [OF this, of t] show ?thesis
      using r Inr by (auto simp: replicate_append_same)
  qed
qed

lemma cifar_stage2_loop_open:
  assumes "no_gate_closed (variables st)"
  shows "(\<exists>e. cifar_stage2_loop fw eps False n label ks l st = Inl e \<and>
              plain_stage_loop fw ''res2.'' ks l = Inl e) \<or>
         (\<exists>t st'. cifar_stage2_loop fw eps False n label ks l st = Inr (t, st') \<and>
              plain_stage_loop fw ''res2.'' ks l = Inr t \<and>
              no_gate_closed (variables st') \<and>
              preds st' = preds st @ replicate (length ks) 0)"
  using assms
proof (induction ks arbitrary: l st)
  case Nil
  then show ?case by simp
next
  case (Cons k ks)
  show ?case
  proof (cases "plain_residual fw (''res2.'' @ str k) l False False")
    case (Inl e)
    then show ?thesis
      by (simp add: cifar_residual_open [OF Cons.prems])
  next
    case (Inr t)
    let ?st1 = "st \<lparr> variables :=
        snd (get_variable (variables st) ((''res2.'' @ str k) @ ''/identity'') 1 False),
        preds := preds st @ [0] \<rparr>"
    let ?st2 = "if k = n div 2
        then ?st1 \<lparr> side_output_cost :=
                      side_output_cost ?st1 @ [side_output fw (''res2.'' @ str k) t label 10] \<rparr>
        else ?st1"
    have r: "cifar_residual fw eps False (''res2.'' @ str k) l False False st = Inr (t, ?st1)"
      using Inr by (simp add: cifar_residual_open [OF Cons.prems])
    have "no_gate_closed (variables ?st2)"
      using Cons.prems by (simp add: no_gate_closed_created)
    from Cons.IH [OF this, of t] show ?thesis
      using r Inr by (auto simp: replicate_append_same)
  qed
qed

lemma cifar_residual_open_Inr:
  assumes "no_gate_closed (variables st)"
    and "cifar_residual fw eps False name l inc first st = Inr (t, st')"
  shows "no_gate_closed (variables st')" and "preds st' = preds st @ [0]"
    and "plain_residual fw name l inc first = Inr t"
  using assms(2) no_gate_closed_created [OF assms(1), of "name @ ''/identity''" False]
  by (auto simp: cifar_residual_open [OF assms(1)] split: sum.splits)

lemma cifar_build_graph_open_preds:
  assumes "cifar_build_graph fw gpu_ok eps n False vs img label = Inr g"
    and "no_gate_closed vs"
  shows "no_gate_closed (variables (g_build g)) \<and> set (preds (g_build g)) \<subseteq> {0}"
proof (rule cifar_build_graph_invariant [OF assms(1),
        where P = "\<lambda>st. no_gate_closed (variables st) \<and> set (preds st) \<subseteq> {0}"])
  show "no_gate_closed (variables \<lparr> variables = vs, preds = [], side_output_cost = [] \<rparr>) \<and>
      set (preds \<lparr> variables = vs, preds = [], side_output_cost = [] \<rparr>) \<subseteq> {0}"
    by (simp add: assms(2))
next
  fix name l inc first st l1 st1
  assume p: "no_gate_closed (variables st) \<and> set (preds st) \<subseteq> {0}"
    and r: "cifar_residual fw eps False name l inc first st = Inr (l1, st1)"
  from p have o: "no_gate_closed (variables st)" by simp
  from cifar_residual_open_Inr(1,2) [OF o r] p
  show "no_gate_closed (variables st1) \<and> set (preds st1) \<subseteq> {0}"
    by simp
next
  fix st :: build and xs
  assume "no_gate_closed (variables st) \<and> set (preds st) \<subseteq> {0}"
  then show "no_gate_closed (variables (st \<lparr> side_output_cost := xs \<rparr>)) \<and>
      set (preds (st \<lparr> side_output_cost := xs \<rparr>)) \<subseteq> {0}"
    by simp
qed

lemma sum_list_zeros: "set xs \<subseteq> {0} \<Longrightarrow> sum_list xs = (0 :: real)"
  by (induction xs) auto

lemma cifar_build_graph_open_cnt:
  assumes "cifar_build_graph fw gpu_ok eps n False vs img label = Inr g"
    and "no_gate_closed vs"
  shows "g_discarded_cnt g = 0" and "g_discarded_ratio g = 0"
proof -
  from assms(1) obtain st6 where g: "g_build g = st6"
    and c: "add_n (preds st6) = Inr (g_discarded_cnt g)"
    and r: "g_discarded_ratio g = g_discarded_cnt g / g_all_cnt g"
    by (rule cifar_build_graph_Inr)
  from cifar_build_graph_open_preds [OF assms] g have "set (preds st6) \<subseteq> {0}"
    by simp
  with c show "g_discarded_cnt g = 0"
    by (auto simp: add_n_def sum_list_zeros split: if_splits)
  with r show "g_discarded_ratio g = 0"
    by simp
qed

lemma cifar_stage2_loop_side_bound:
  assumes "cifar_stage2_loop fw eps tr n label (range1 n) l st = Inr (l', st')"
    and "side_output_cost st = []"
  shows "length (side_output_cost st') \<le> 1"
  using cifar_stage2_loop_side [OF assms(1)] assms(2)
  by (auto simp: side_heads_in_range1)

lemma cifar_build_graph_open_logits:
  assumes o: "no_gate_closed vs"
  shows "map_sum id g_logits (cifar_build_graph fw True eps n False vs img label) =
           plain_resnet fw n img"
proof -
  define l0 where "l0 =
    Conv2D fw ''conv0'' (tf_transpose fw (tscale (1 / 128) img) [0, 3, 1, 2]) 16 3 1 nl_BNReLU"
  define st0 where "st0 = \<lparr> variables = vs, preds = [], side_output_cost = [] \<rparr>"
  note D = cifar_build_graph_def plain_resnet_def Let_def l0_def st0_def
  have o0: "no_gate_closed (variables st0)"
    using o by (simp add: st0_def)
  show ?thesis
  proof (cases "plain_residual fw ''res1.0'' l0 False True")
    case (Inl e)
    with cifar_residual_open [OF o0, of fw eps "''res1.0''" l0 False True]
    show ?thesis by (simp add: D)
  next
    case p1: (Inr l1)
    with cifar_residual_open [OF o0, of fw eps "''res1.0''" l0 False True]
    obtain st1 where r1: "cifar_residual fw eps False ''res1.0'' l0 False True st0 = Inr (l1, st1)"
      by simp
    note o1 = cifar_residual_open_Inr(1) [OF o0 r1]
    have n1: "preds st1 \<noteq> []"
      using cifar_residual_open_Inr(2) [OF o0 r1] by simp
    have s1: "side_output_cost st1 = []"
      using cifar_residual_side [OF r1] by (simp add: st0_def)
    from cifar_stage_loop_open [OF o1, of fw eps "''res1.''" "range1 n" l1]
    consider (err) e where "cifar_stage_loop fw eps False ''res1.'' (range1 n) l1 st1 = Inl e"
        "plain_stage_loop fw ''res1.'' (range1 n) l1 = Inl e"
      | (ok) l2 st2 where "cifar_stage_loop fw eps False ''res1.'' (range1 n) l1 st1 = Inr (l2, st2)"
        "plain_stage_loop fw ''res1.'' (range1 n) l1 = Inr l2"
        "no_gate_closed (variables st2)" "preds st2 = preds st1 @ replicate (length (range1 n)) 0"
      by blast
    then show ?thesis
    proof cases
      case err
      with p1 r1 show ?thesis by (simp add: D)
    next
      case ok2: ok
      note r2 = ok2(1) and p2 = ok2(2) and o2 = ok2(3)
      have n2: "preds st2 \<noteq> []" using ok2(4) n1 by simp
      have s2: "side_output_cost st2 = []"
        using cifar_stage_loop_side [OF r2] s1 by simp
      show ?thesis
      proof (cases "plain_residual fw ''res2.0'' l2 True False")
        case (Inl e)
        with cifar_residual_open [OF o2, of fw eps "''res2.0''" l2 True False] p1 r1 p2 r2
        show ?thesis by (simp add: D)
      next
        case p3: (Inr l3)
        with cifar_residual_open [OF o2, of fw eps "''res2.0''" l2 True False]
        obtain st3 where r3: "cifar_residual fw eps False ''res2.0'' l2 True False st2 = Inr (l3, st3)"
          by simp
        note o3 = cifar_residual_open_Inr(1) [OF o2 r3]
        have n3: "preds st3 \<noteq> []"
          using cifar_residual_open_Inr(2) [OF o2 r3] by simp
        have s3: "side_output_cost st3 = []"
          using cifar_residual_side [OF r3] s2 by simp
        from cifar_stage2_loop_open [OF o3, of fw eps n label "range1 n" l3]
        consider (err) e where
            "cifar_stage2_loop fw eps False n label (range1 n) l3 st3 = Inl e"
            "plain_stage_loop fw ''res2.'' (range1 n) l3 = Inl e"
          | (ok) l4 st4 where
            "cifar_stage2_loop fw eps False n label (range1 n) l3 st3 = Inr (l4, st4)"
            "plain_stage_loop fw ''res2.'' (range1 n) l3 = Inr l4"
            "no_gate_closed (variables st4)"
            "preds st4 = preds st3 @ replicate (length (range1 n)) 0"
          by blast
        then show ?thesis
        proof cases
          case err
          with p1 r1 p2 r2 p3 r3 show ?thesis by (simp add: D)
        next
          case ok4: ok
          note r4 = ok4(1) and p4 = ok4(2) and o4 = ok4(3)
          have n4: "preds st4 \<noteq> []" using ok4(4) n3 by simp
          have s4: "length (side_output_cost st4) \<le> 1"
            by (rule cifar_stage2_loop_side_bound [OF r4 s3])
          show ?thesis
          proof (cases "plain_residual fw ''res3.0'' l4 True False")
            case (Inl e)
            with cifar_residual_open [OF o4, of fw eps "''res3.0''" l4 True False]
              p1 r1 p2 r2 p3 r3 p4 r4
            show ?thesis by (simp add: D)
          next
            case p5: (Inr l5)
            with cifar_residual_open [OF o4, of fw eps "''res3.0''" l4 True False]
            obtain st5 where
              r5: "cifar_residual fw eps False ''res3.0'' l4 True False st4 = Inr (l5, st5)"
              by simp
            note o5 = cifar_residual_open_Inr(1) [OF o4 r5]
            have n5: "preds st5 \<noteq> []"
              using cifar_residual_open_Inr(2) [OF o4 r5] by simp
            have s5: "length (side_output_cost st5) \<le> 1"
              using cifar_residual_side [OF r5] s4 by simp
            from cifar_stage_loop_open [OF o5, of fw eps "''res3.''" "range1 n" l5]
            consider (err) e where
                "cifar_stage_loop fw eps False ''res3.'' (range1 n) l5 st5 = Inl e"
                "plain_stage_loop fw ''res3.'' (range1 n) l5 = Inl e"
              | (ok) l6 st6 where
                "cifar_stage_loop fw eps False ''res3.'' (range1 n) l5 st5 = Inr (l6, st6)"
                "plain_stage_loop fw ''res3.'' (range1 n) l5 = Inr l6"
                "no_gate_closed (variables st6)"
                "preds st6 = preds st5 @ replicate (length (range1 n)) 0"
              by blast
            then show ?thesis
            proof cases
              case err
              with p1 r1 p2 r2 p3 r3 p4 r4 p5 r5 show ?thesis by (simp add: D)
            next
              case ok6: ok
              note r6 = ok6(1) and p6 = ok6(2)
              have n6: "preds st6 \<noteq> []" using ok6(4) n5 by simp
              have s6: "length (side_output_cost st6) \<le> 1"
                using cifar_stage_loop_side [OF r6] s5 by simp
              have "\<exists>g. cifar_build_graph fw True eps n False vs img label = Inr g \<and>
                  g_logits g =
                    FullyConnected fw ''linear''
                      (GlobalAvgPooling fw ''gap'' (BNReLU fw ''bnlast'' l6)) 10"
                using p1 r1 p2 r2 p3 r3 p4 r4 p5 r5 p6 r6 n6 s6
                by (simp add: D add_n_def weigh_side_costs_short)
              then obtain g where
                "cifar_build_graph fw True eps n False vs img label = Inr g"
                and gl: "g_logits g =
                  FullyConnected fw ''linear''
                    (GlobalAvgPooling fw ''gap'' (BNReLU fw ''bnlast'' l6)) 10"
                by blast
              moreover have "plain_resnet fw n img = Inr (g_logits g)"
                using p1 p2 p3 p4 p5 p6 gl by (simp add: D)
              ultimately show ?thesis by simp
            qed
          qed
        qed
      qed
    qed
  qed
qed

lemma cifar_build_graph_fresh_variables:
  assumes "cifar_build_graph fw gpu_ok eps n False Map.empty img label = Inr g"
  shows "\<forall>k v. variables (g_build g) k = Some v \<longrightarrow>
           v = \<lparr> var_value = 1, var_trainable = False \<rparr>"
proof (rule cifar_build_graph_invariant [OF assms,
        where P = "\<lambda>st. \<forall>k v. variables st k = Some v \<longrightarrow>
                         v = \<lparr> var_value = 1, var_trainable = False \<rparr>"])
  show "\<forall>k v. variables \<lparr> variables = Map.empty, preds = [], side_output_cost = [] \<rparr> k = Some v
      \<longrightarrow> v = \<lparr> var_value = 1, var_trainable = False \<rparr>"
    by simp
next
  fix name l inc first st l1 st1
  assume p: "\<forall>k v. variables st k = Some v \<longrightarrow> v = \<lparr> var_value = 1, var_trainable = False \<rparr>"
    and r: "cifar_residual fw eps False name l inc first st = Inr (l1, st1)"
  from cifar_residual_variables [OF r] p
  show "\<forall>k v. variables st1 k = Some v \<longrightarrow> v = \<lparr> var_value = 1, var_trainable = False \<rparr>"
    by (auto simp: get_variable_def Let_def split: option.splits if_splits)
next
  fix st :: build and xs
  assume "\<forall>k v. variables st k = Some v \<longrightarrow> v = \<lparr> var_value = 1, var_trainable = False \<rparr>"
  then show "\<forall>k v. variables (st \<lparr> side_output_cost := xs \<rparr>) k = Some v \<longrightarrow>
      v = \<lparr> var_value = 1, var_trainable = False \<rparr>"
    by simp
qed

lemma fresh_created_variable:
  "snd (get_variable Map.empty k 1 False) k = Some \<lparr> var_value = 1, var_trainable = False \<rparr>"
  by (simp add: get_variable_def Let_def)

text \<open>
  The fresh store.  A gate variable is created by \<^verbatim>\<open>residual\<close> with the value 1.0 and not trainable.  So in a
  freshly initialized model, at inference, a block of either script creates its gate so and
  returns the shortcut plus the residual branch of its input; and the CIFAR-10 graph
  discards no block (every entry of \<^verbatim>\<open>preds\<close> and \<^verbatim>\<open>discarded_cnt\<close> are 0), holds
  only gates of value 1.0 that are not trainable, and returns the logits of the residual
  network without gates, failing where and as that network fails.
\<close>

theorem fresh_model_keeps_every_block:
  "(cifar_residual fw eps False name l inc first (st \<lparr> variables := Map.empty \<rparr>) = Inr (out, st')
      \<longrightarrow>
      variables st' (name @ ''/identity'') = Some \<lparr> var_value = 1, var_trainable = False \<rparr> \<and>
      tadd (cifar_shortcut fw l inc) (cifar_F fw name l inc first) = Inr out) \<and>
   (imagenet_residual fw eps False name l ch_out stride preact bb (st \<lparr> variables := Map.empty \<rparr>) =
      Inr (out, st') \<longrightarrow>
      variables st' (name @ ''/identity'') = Some \<lparr> var_value = 1, var_trainable = False \<rparr> \<and>
      tadd (imagenet_shortcut fw name l ch_out stride preact)
        (imagenet_F fw name l ch_out stride preact bb) = Inr out) \<and>
   map_sum id g_logits (cifar_build_graph fw True eps n False Map.empty img label) =
     plain_resnet fw n img \<and>
   (cifar_build_graph fw True eps n False Map.empty img label = Inr g \<longrightarrow>
      g_discarded_cnt g = 0 \<and> set (preds (g_build g)) \<subseteq> {0} \<and>
      (\<forall>k v. variables (g_build g) k = Some v \<longrightarrow>
         v = \<lparr> var_value = 1, var_trainable = False \<rparr>))"
proof (intro conjI impI)
  assume r: "cifar_residual fw eps False name l inc first (st \<lparr> variables := Map.empty \<rparr>) =
      Inr (out, st')"
  from cifar_residual_variables [OF r]
  show "variables st' (name @ ''/identity'') = Some \<lparr> var_value = 1, var_trainable = False \<rparr>"
    by (simp add: fresh_created_variable)
  have "no_gate_closed (variables (st \<lparr> variables := Map.empty \<rparr>))"
    by (simp add: no_gate_closed_empty)
  from cifar_residual_open_Inr(3) [OF this r]
  show "tadd (cifar_shortcut fw l inc) (cifar_F fw name l inc first) = Inr out"
    by (simp add: plain_residual_def split: if_splits)
next
  assume r: "imagenet_residual fw eps False name l ch_out stride preact bb
      (st \<lparr> variables := Map.empty \<rparr>) = Inr (out, st')"
  from imagenet_residual_variables [OF r]
  show "variables st' (name @ ''/identity'') = Some \<lparr> var_value = 1, var_trainable = False \<rparr>"
    by (simp add: fresh_created_variable)
  have len: "1 < length (shape l)"
    using r by (simp add: imagenet_residual_def split: if_splits)
  from r show "tadd (imagenet_shortcut fw name l ch_out stride preact)
        (imagenet_F fw name l ch_out stride preact bb) = Inr out"
    by (auto simp: imagenet_residual_test [OF len] stored_gate_cases
        tadd_commute [of "imagenet_F fw name l ch_out stride preact bb"] split: sum.splits)
next
  show "map_sum id g_logits (cifar_build_graph fw True eps n False Map.empty img label) =
     plain_resnet fw n img"
    by (rule cifar_build_graph_open_logits [OF no_gate_closed_empty])
next
  assume g: "cifar_build_graph fw True eps n False Map.empty img label = Inr g"
  show "g_discarded_cnt g = 0"
    by (rule cifar_build_graph_open_cnt(1) [OF g no_gate_closed_empty])
  show "set (preds (g_build g)) \<subseteq> {0}"
    using cifar_build_graph_open_preds [OF g no_gate_closed_empty] by simp
  show "\<forall>k v. variables (g_build g) k = Some v \<longrightarrow>
         v = \<lparr> var_value = 1, var_trainable = False \<rparr>"
    by (rule cifar_build_graph_fresh_variables [OF g])
qed

lemma toy_cifar_fresh_step:
  "cifar_build_graph toy_env True 3 1 False Map.empty (toy_tensor 256) [] =
     Inr \<lparr> g_logits = toy_tensor 16, g_all_cnt = 5, g_discarded_cnt = 0,
           g_discarded_ratio = 0, g_side_output_cost = [], g_cost = 1,
           g_build =
             \<lparr> variables = [''res1.0/identity'' \<mapsto> toy_gate 1, ''res2.0/identity'' \<mapsto> toy_gate 1,
                             ''res3.0/identity'' \<mapsto> toy_gate 1],
               preds = [0, 0, 0], side_output_cost = [] \<rparr> \<rparr>"
  by (simp add: cifar_build_graph_def Let_def toy_simps toy_tscale_img toy_cifar_test
      range1_small add_n_def weigh_side_costs_def is_discarded_def tf_where_def
      get_variable_def toy_gate_def stored_gate_cases)

theorem fresh_model_keeps_every_block_witness:
  "plain_resnet toy_env 1 (toy_tensor 256) = Inr (toy_tensor 16) \<and>
   map_sum id g_discarded_cnt
     (cifar_build_graph toy_env True 3 1 False Map.empty (toy_tensor 256) []) = Inr 0 \<and>
   tadd (cifar_shortcut toy_env (toy_tensor 2) False)
     (cifar_F toy_env ''b'' (toy_tensor 2) False False) = Inr (toy_tensor 4) \<and>
   tadd (imagenet_shortcut toy_env ''b'' (toy_tensor 2) 1 1 ''default'')
     (imagenet_F toy_env ''b'' (toy_tensor 2) 1 1 ''default'' False) = Inr (toy_tensor 4)"
proof -
  let ?st1 = "\<lparr> variables = [''b/identity'' \<mapsto> toy_gate 1], preds = [0],
      side_output_cost = [] \<rparr>"
  let ?g = "\<lparr> g_logits = toy_tensor 16, g_all_cnt = 5, g_discarded_cnt = 0,
      g_discarded_ratio = 0, g_side_output_cost = [], g_cost = 1,
      g_build =
        \<lparr> variables = [''res1.0/identity'' \<mapsto> toy_gate 1, ''res2.0/identity'' \<mapsto> toy_gate 1,
                        ''res3.0/identity'' \<mapsto> toy_gate 1],
          preds = [0, 0, 0], side_output_cost = [] \<rparr> \<rparr>"
  note t = fresh_model_keeps_every_block [where fw = toy_env and eps = 3 and n = 1
      and img = "toy_tensor 256" and label = "[]" and name = "''b''" and l = "toy_tensor 2"
      and inc = False and first = False and st = "toy_build Map.empty"
      and out = "toy_tensor 4" and st' = ?st1
      and ch_out = 1 and stride = 1 and preact = "''default''" and bb = False and g = ?g]
  have a: "cifar_residual toy_env 3 False ''b'' (toy_tensor 2) False False
      (toy_build Map.empty \<lparr> variables := Map.empty \<rparr>) = Inr (toy_tensor 4, ?st1)"
    by (simp add: toy_cifar_test toy_build_def fresh_created stored_gate_cases
        is_discarded_def tf_where_def)
  have b: "imagenet_residual toy_env 3 False ''b'' (toy_tensor 2) 1 1 ''default'' False
      (toy_build Map.empty \<lparr> variables := Map.empty \<rparr>) = Inr (toy_tensor 4, ?st1)"
    by (simp add: toy_imagenet_test toy_build_def fresh_created stored_gate_cases
        is_discarded_def tf_where_def)
  have c: "cifar_build_graph toy_env True 3 1 False Map.empty (toy_tensor 256) [] = Inr ?g"
    by (rule toy_cifar_fresh_step)
  from t a have 1: "tadd (cifar_shortcut toy_env (toy_tensor 2) False)
     (cifar_F toy_env ''b'' (toy_tensor 2) False False) = Inr (toy_tensor 4)"
    by blast
  from t b have 2: "tadd (imagenet_shortcut toy_env ''b'' (toy_tensor 2) 1 1 ''default'')
     (imagenet_F toy_env ''b'' (toy_tensor 2) 1 1 ''default'' False) = Inr (toy_tensor 4)"
    by blast
  from t have "map_sum id g_logits
      (cifar_build_graph toy_env True 3 1 False Map.empty (toy_tensor 256) []) =
     plain_resnet toy_env 1 (toy_tensor 256)"
    by blast
  with c have 3: "plain_resnet toy_env 1 (toy_tensor 256) = Inr (toy_tensor 16)"
    by simp
  from c have 4: "map_sum id g_discarded_cnt
     (cifar_build_graph toy_env True 3 1 False Map.empty (toy_tensor 256) []) = Inr 0"
    by simp
  from 1 2 3 4 show ?thesis by blast
qed

subsection \<open>The network the ImageNet script builds\<close>

lemma apply_block_func_alone:
  "apply_block_func bf fw scope l ch_out stride preact =
     imagenet_residual_convs fw scope l ch_out stride (bf = basicblock)"
  by (cases bf) simp_all

lemma layer_loop_state:
  "variables (snd (layer_loop fw sp name bf features ks l st)) = variables st \<and>
   preds (snd (layer_loop fw sp name bf features ks l st)) = preds st"
  by (induction ks arbitrary: l st) (simp_all add: Let_def)

lemma layer_loop_output:
  "fst (layer_loop fw sp name bf features ks l st) =
   fst (layer_loop fw sp name bf features ks l st')"
  by (induction ks arbitrary: l st st') (simp_all add: Let_def)

lemma layer_state:
  "variables (snd (layer fw sp l name bf features count stride first st)) = variables st \<and>
   preds (snd (layer fw sp l name bf features count stride first st)) = preds st"
  by (simp add: layer_def Let_def layer_loop_state)

lemma layer_output:
  "fst (layer fw sp l name bf features count stride first st) =
   fst (layer fw sp l name bf features count stride first st')"
  unfolding layer_def Let_def by (rule layer_loop_output)

lemma imagenet_build_graph_explicit:
  fixes fw sd g m vs img label defs bf
  defines "sp \<equiv> int (sum_list defs) div 2 - int (sum_list (take 2 defs)) - 1"
  defines "r2 \<equiv> layer fw sp
      (MaxPooling fw ''pool0''
         (Conv2D fw ''conv0''
            (if model_data_format m = ''NCHW''
             then tf_transpose fw (sd (tscale (1 / 255) img)) [0, 3, 1, 2]
             else sd (tscale (1 / 255) img)) 64 7 2 nl_BNReLU) 3 2)
      ''group0'' bf 64 (defs ! 0) 1 True \<lparr> variables = vs, preds = [], side_output_cost = [] \<rparr>"
  defines "r3 \<equiv> layer fw sp (fst r2) ''group1'' bf 128 (defs ! 1) 2 False (snd r2)"
  defines "r4 \<equiv> layer fw sp (fst r3) ''group2'' bf 256 (defs ! 2) 2 False (snd r3)"
  defines "r5 \<equiv> layer fw sp (fst r4) ''group3'' bf 512 (defs ! 3) 2 False (snd r4)"
  assumes cfg: "cfg_lookup (DEPTH g) = Inr (defs, bf)"
  shows "imagenet_build_graph fw sd g m vs img label =
      Inr \<lparr> i_logits =
              FullyConnected fw ''linear''
                (GlobalAvgPooling fw ''gap'' (BNReLU fw ''bnlast'' (fst r5))) 1000,
            i_side_position = sp,
            i_loss = cross_entropy_loss fw
              (FullyConnected fw ''linear''
                (GlobalAvgPooling fw ''gap'' (BNReLU fw ''bnlast'' (fst r5))) 1000) label,
            i_wd_cost = wd_cost fw,
            i_side_output_cost = map (\<lambda>c. 0.1 * c) (side_output_cost (snd r5)),
            i_build = snd r5 \<rparr>"
proof -
  have len: "\<not> length defs < 4"
    using cfg_lookup_Inr [OF cfg] by auto
  have s2: "side_output_cost (snd r2) = []"
    using layer_side [of fw sp _ "''group0''" bf 64 "defs ! 0" 1 True
        "\<lparr> variables = vs, preds = [], side_output_cost = [] \<rparr>"]
    by (simp add: r2_def)
  have s3: "side_output_cost (snd r3) = []"
    using layer_side [of fw sp "fst r2" "''group1''" bf 128 "defs ! 1" 2 False "snd r2"] s2
    by (simp add: r3_def)
  have s4: "length (side_output_cost (snd r4)) \<le> 1"
    using layer_side [of fw sp "fst r3" "''group2''" bf 256 "defs ! 2" 2 False "snd r3"] s3
    by (auto simp: r4_def)
  have s5: "length (side_output_cost (snd r5)) \<le> 1"
    using layer_side [of fw sp "fst r4" "''group3''" bf 512 "defs ! 3" 2 False "snd r4"] s4
    by (auto simp: r5_def)
  show ?thesis
    unfolding imagenet_build_graph_def Let_def
    using cfg len weigh_side_costs_short [OF s5, of "0.1"]
    by (simp add: split_beta sp_def r2_def r3_def r4_def r5_def)
qed

lemma imagenet_build_graph_state:
  assumes cfg: "cfg_lookup (DEPTH g) = Inr (defs, bf)"
  shows "map_sum id (\<lambda>gr. (variables (i_build gr), preds (i_build gr)))
           (imagenet_build_graph fw sd g m vs img label) = Inr (vs, [])"
  by (simp add: imagenet_build_graph_explicit [OF cfg] layer_state)

lemma imagenet_build_graph_logits:
  assumes cfg: "cfg_lookup (DEPTH g) = Inr (defs, bf)"
  shows "map_sum id i_logits (imagenet_build_graph fw sd g m vs img label) =
         map_sum id i_logits (imagenet_build_graph fw sd g m vs' img label)"
proof -
  let ?sp = "int (sum_list defs) div 2 - int (sum_list (take 2 defs)) - 1"
  let ?l1 = "MaxPooling fw ''pool0''
         (Conv2D fw ''conv0''
            (if model_data_format m = ''NCHW''
             then tf_transpose fw (sd (tscale (1 / 255) img)) [0, 3, 1, 2]
             else sd (tscale (1 / 255) img)) 64 7 2 nl_BNReLU) 3 2"
  let ?r2 = "\<lambda>vs. layer fw ?sp ?l1 ''group0'' bf 64 (defs ! 0) 1 True
      \<lparr> variables = vs, preds = [], side_output_cost = [] \<rparr>"
  let ?r3 = "\<lambda>vs. layer fw ?sp (fst (?r2 vs)) ''group1'' bf 128 (defs ! 1) 2 False (snd (?r2 vs))"
  let ?r4 = "\<lambda>vs. layer fw ?sp (fst (?r3 vs)) ''group2'' bf 256 (defs ! 2) 2 False (snd (?r3 vs))"
  let ?r5 = "\<lambda>vs. layer fw ?sp (fst (?r4 vs)) ''group3'' bf 512 (defs ! 3) 2 False (snd (?r4 vs))"
  have 2: "fst (?r2 vs) = fst (?r2 vs')"
    by (rule layer_output)
  have 3: "fst (?r3 vs) = fst (?r3 vs')"
    unfolding 2 by (rule layer_output)
  have 4: "fst (?r4 vs) = fst (?r4 vs')"
    unfolding 3 by (rule layer_output)
  have 5: "fst (?r5 vs) = fst (?r5 vs')"
    unfolding 4 by (rule layer_output)
  show ?thesis
    unfolding imagenet_build_graph_explicit [OF cfg] using 5 by simp
qed

lemma imagenet_build_graph_rejected:
  "d \<notin> {18, 34, 50, 101, 152} \<Longrightarrow>
     imagenet_build_graph fw sd (g \<lparr> DEPTH := Some d \<rparr>) m vs img label = Inl KeyError"
  by (simp add: imagenet_build_graph_def cfg_lookup_def cfg_def Let_def)

lemma cfg_lookup_accepted:
  "d \<in> {18, 34, 50, 101, 152} \<Longrightarrow>
     \<exists>defs bf. cfg_lookup (DEPTH (g \<lparr> DEPTH := Some d \<rparr>)) = Inr (defs, bf)"
  by (auto simp: cfg_lookup_def cfg_def)

subsection \<open>The second small instance, evaluated\<close>

lemma toy2_simps:
  "BNReLU toy_env2 = (\<lambda>_ t. t)" "Conv2D toy_env2 = (\<lambda>_ t _ _ _ _. tscale 2 t)"
  "MaxPooling toy_env2 = (\<lambda>_ t _ _. t)" "GlobalAvgPooling toy_env2 = (\<lambda>_ t. t)"
  "FullyConnected toy_env2 = (\<lambda>_ t _. t)" "tf_transpose toy_env2 = (\<lambda>t _. t)"
  "cross_entropy_loss toy_env2 = (\<lambda>_ _. 1)" "wd_cost toy_env2 = 0"
  by (simp_all add: toy_env2_def toy_env_def)

lemma toy2_convs:
  "imagenet_residual_convs toy_env2 scope (toy_tensor x) ch_out stride True = toy_tensor (4 * x)"
  "imagenet_residual_convs toy_env2 scope (toy_tensor x) ch_out stride False = toy_tensor (8 * x)"
  by (simp_all add: imagenet_residual_convs_def toy2_simps toy_tscale Let_def)

lemma toy2_block:
  "apply_block_func basicblock toy_env2 scope (toy_tensor x) ch_out stride preact =
     toy_tensor (4 * x)"
  by (simp add: toy2_convs)

lemma toy2_parts:
  "imagenet_shortcut toy_env2 scope (toy_tensor x) 64 stride ''no_preact'' = toy_tensor (2 * x)"
  "imagenet_F toy_env2 scope (toy_tensor x) 64 stride ''no_preact'' True = toy_tensor (4 * x)"
  by (simp_all add: imagenet_shortcut_def imagenet_F_def imagenet_preact_def shortcut_def
      toy2_simps toy2_convs toy_tscale toy_shape)

lemma toy2_layer:
  "layer toy_env2 (- 1) (toy_tensor x) name basicblock features 2 stride first st =
     (toy_tensor (16 * x), st)"
  by (simp add: layer_def Let_def range1_small toy2_convs)

lemma toy2_graph:
  "imagenet_build_graph toy_env2 id (g \<lparr> DEPTH := Some 18 \<rparr>) m vs (toy_tensor 255) [] =
     Inr \<lparr> i_logits = toy_tensor 131072, i_side_position = - 1, i_loss = 1, i_wd_cost = 0,
           i_side_output_cost = [],
           i_build = \<lparr> variables = vs, preds = [], side_output_cost = [] \<rparr> \<rparr>"
  by (simp add: imagenet_build_graph_def Let_def cfg_lookup_def cfg_def toy2_simps toy_tscale
      toy2_layer weigh_side_costs_def)

lemma toy2_run:
  "imagenet_run (toy_cmdline \<lparr> cl_eval := ev \<rparr>) toy_env2 id True vs (toy_tensor 255) [] =
     Inr \<lparr> i_logits = toy_tensor 131072, i_side_position = - 1, i_loss = 1, i_wd_cost = 0,
           i_side_output_cost = [],
           i_build = \<lparr> variables = vs, preds = [], side_output_cost = [] \<rparr> \<rparr>"
  using toy2_graph [of imagenet_initial_globals _ vs]
  by (simp add: imagenet_run_def imagenet_parse_args_def parse_depth_def imagenet_main_def
      imagenet_Model_def toy_cmdline_def)

lemma toy2_parts_any:
  "imagenet_shortcut toy_env2 scope (toy_tensor x) ch_out stride ''no_preact'' =
     toy_tensor (2 * x)"
  "imagenet_F toy_env2 scope (toy_tensor x) ch_out stride ''no_preact'' True = toy_tensor (4 * x)"
  by (simp_all add: imagenet_shortcut_def imagenet_F_def imagenet_preact_def shortcut_def
      toy2_simps toy2_convs toy_tscale toy_shape)

text \<open>
  Claim C1.  The blocks of the CIFAR-10 graph are built by \<^verbatim>\<open>residual\<close> and do at
  inference what the claim says.  The blocks of the ImageNet graph are not built by
  \<^verbatim>\<open>residual\<close>: \<^verbatim>\<open>basicblock\<close> and \<^verbatim>\<open>bottleneck\<close> return the convolution stack of
  their input and nothing else, so a block of that graph returns \<open>F(input)\<close> whatever a
  gate holds, without the shortcut.  On the second small instance a block returns 4 where
  the shortcut is 2 and the shortcut plus the residual branch is 6, and the logits of the
  graph are the same with a stored gate of 0 and with a stored gate of 1.
\<close>

theorem imagenet_block_ignores_gate:
  "apply_block_func bf fw scope l ch_out stride preact =
     imagenet_residual_convs fw scope l ch_out stride (bf = basicblock) \<and>
   apply_block_func basicblock toy_env2 ''group0/block0'' (toy_tensor 1) 64 1 ''no_preact'' =
     toy_tensor 4 \<and>
   imagenet_shortcut toy_env2 ''group0/block0'' (toy_tensor 1) 64 1 ''no_preact'' =
     toy_tensor 2 \<and>
   tadd (imagenet_shortcut toy_env2 ''group0/block0'' (toy_tensor 1) 64 1 ''no_preact'')
     (imagenet_F toy_env2 ''group0/block0'' (toy_tensor 1) 64 1 ''no_preact'' True) =
     Inr (toy_tensor 6) \<and>
   map_sum id i_logits
     (imagenet_run (toy_cmdline \<lparr> cl_eval := True \<rparr>) toy_env2 id True
        [''group0/block0/identity'' \<mapsto> toy_gate 0] (toy_tensor 255) []) =
     Inr (toy_tensor 131072) \<and>
   map_sum id i_logits
     (imagenet_run (toy_cmdline \<lparr> cl_eval := True \<rparr>) toy_env2 id True
        [''group0/block0/identity'' \<mapsto> toy_gate 1] (toy_tensor 255) []) =
     Inr (toy_tensor 131072)"
  by (simp add: apply_block_func_alone toy2_convs toy2_parts_any toy_tadd toy2_run)

text \<open>
  Claim C4.  In the CIFAR-10 graph every block owns its gate variable as the claim says.
  The ImageNet graph has no gate variable at all: for every accepted depth, building and
  running it returns the store of variables it was given and an empty list of gates, in
  training as outside it (the graph does not depend on the mode), because no block of it
  is built by \<^verbatim>\<open>residual\<close>.
\<close>

theorem imagenet_graph_owns_no_gate:
  "map_sum id (\<lambda>gr. (variables (i_build gr), preds (i_build gr)))
     (imagenet_build_graph fw sd (g \<lparr> DEPTH := Some d \<rparr>) m vs img label) =
   (if d \<in> {18, 34, 50, 101, 152} then Inr (vs, []) else Inl KeyError)"
proof (cases "d \<in> {18, 34, 50, 101, 152}")
  case True
  from cfg_lookup_accepted [OF True, of g] obtain defs bf where
    "cfg_lookup (DEPTH (g \<lparr> DEPTH := Some d \<rparr>)) = Inr (defs, bf)"
    by blast
  from imagenet_build_graph_state [OF this, of fw sd m vs img label] True
  show ?thesis by simp
next
  case False
  then show ?thesis
    by (simp add: imagenet_build_graph_rejected)
qed

text \<open>
  Claim C6.  In the CIFAR-10 graph every stored gate is 0 or 1 and inference branches on
  it.  In the ImageNet graph a training step from the freshly initialized model stores no
  gate (the store stays empty and no gate is collected), and the logits do not depend on
  the store: inference does not branch on a stored gate.
\<close>

theorem imagenet_training_stores_no_gate:
  "map_sum id (\<lambda>gr. (variables (i_build gr), preds (i_build gr)))
     (imagenet_run toy_cmdline toy_env2 id True Map.empty (toy_tensor 255) []) =
     Inr (Map.empty, []) \<and>
   map_sum id i_logits (imagenet_build_graph fw sd (g \<lparr> DEPTH := Some 18 \<rparr>) m vs img label) =
   map_sum id i_logits (imagenet_build_graph fw sd (g \<lparr> DEPTH := Some 18 \<rparr>) m vs' img label)"
proof
  have "toy_cmdline = toy_cmdline \<lparr> cl_eval := False \<rparr>"
    by (simp add: toy_cmdline_def)
  then have "imagenet_run toy_cmdline toy_env2 id True Map.empty (toy_tensor 255) [] =
      imagenet_run (toy_cmdline \<lparr> cl_eval := False \<rparr>) toy_env2 id True Map.empty
        (toy_tensor 255) []"
    by simp
  then show "map_sum id (\<lambda>gr. (variables (i_build gr), preds (i_build gr)))
     (imagenet_run toy_cmdline toy_env2 id True Map.empty (toy_tensor 255) []) =
     Inr (Map.empty, [])"
    by (simp add: toy2_run)
next
  obtain defs bf where "cfg_lookup (DEPTH (g \<lparr> DEPTH := Some 18 \<rparr>)) = Inr (defs, bf)"
    using cfg_lookup_accepted [of 18 g] by auto
  then show "map_sum id i_logits
      (imagenet_build_graph fw sd (g \<lparr> DEPTH := Some 18 \<rparr>) m vs img label) =
    map_sum id i_logits (imagenet_build_graph fw sd (g \<lparr> DEPTH := Some 18 \<rparr>) m vs' img label)"
    by (rule imagenet_build_graph_logits)
qed

text \<open>
  Claim C9.  \<^verbatim>\<open>residual\<close> of either script creates its gate with the value 1.0 and not
  trainable, and the freshly initialized CIFAR-10 model is the full residual network.  The
  freshly initialized ImageNet model is not: a group of one block is the convolution
  stack of its input, nothing is added to it, and no gate variable is created.  On the
  second small instance the first block returns 8 for the input 2, where the shortcut plus
  the residual branch is 12; the logits are 131072 and the store stays empty.
\<close>

theorem imagenet_fresh_model_has_no_shortcut:
  "fst (layer fw sp l name bf features 1 stride first st) =
     imagenet_residual_convs fw (name @ ''/block0'') l features stride (bf = basicblock) \<and>
   apply_block_func basicblock toy_env2 ''group0/block0'' (toy_tensor 2) 64 1 ''no_preact'' =
     toy_tensor 8 \<and>
   tadd (imagenet_shortcut toy_env2 ''group0/block0'' (toy_tensor 2) 64 1 ''no_preact'')
     (imagenet_F toy_env2 ''group0/block0'' (toy_tensor 2) 64 1 ''no_preact'' True) =
     Inr (toy_tensor 12) \<and>
   map_sum id (\<lambda>gr. (i_logits gr, variables (i_build gr)))
     (imagenet_run (toy_cmdline \<lparr> cl_eval := True \<rparr>) toy_env2 id True Map.empty
        (toy_tensor 255) []) =
     Inr (toy_tensor 131072, Map.empty)"
  by (simp add: layer_def Let_def range1_small apply_block_func_alone toy2_convs toy2_parts_any
      toy_tadd toy2_run)

subsection \<open>The training branch of the CIFAR-10 block\<close>




subsection \<open>The names of the blocks are distinct\<close>

lemma digits_small: "n < 10 \<Longrightarrow> digits n = [char_of (48 + n)]"
  by (subst digits.simps) simp

lemma digits_large:
  "\<not> n < 10 \<Longrightarrow> digits n = digits (n div 10) @ [char_of (48 + n mod 10)]"
  by (subst digits.simps) simp

lemma digits_nonempty: "digits n \<noteq> []"
  by (cases "n < 10") (simp_all add: digits_small digits_large)

lemma digit_char_inj:
  assumes "a < 10" and "b < 10" and "char_of (48 + a) = (char_of (48 + b) :: char)"
  shows "a = (b :: nat)"
  using assms by (simp add: char_of_eq_iff take_bit_eq_mod)

lemma digits_inj: "digits m = digits n \<Longrightarrow> m = n"
proof (induction m arbitrary: n rule: digits.induct)
  case (1 m)
  show ?case
  proof (cases "m < 10")
    case small_m: True
    show ?thesis
    proof (cases "n < 10")
      case True
      with small_m "1.prems" show ?thesis
        by (simp add: digits_small digit_char_inj)
    next
      case False
      with small_m "1.prems" digits_nonempty [of "n div 10"] show ?thesis
        by (simp add: digits_small digits_large)
    qed
  next
    case large_m: False
    show ?thesis
    proof (cases "n < 10")
      case True
      with large_m "1.prems" digits_nonempty [of "m div 10"] show ?thesis
        by (simp add: digits_small digits_large)
    next
      case False
      with large_m "1.prems" have d: "digits (m div 10) = digits (n div 10)"
        and c: "char_of (48 + m mod 10) = (char_of (48 + n mod 10) :: char)"
        by (simp_all add: digits_large)
      from "1.IH" [OF large_m d] have q: "m div 10 = n div 10" .
      have r: "m mod 10 = n mod 10"
        by (rule digit_char_inj [OF _ _ c]) simp_all
      from q r show ?thesis
        by (metis div_mult_mod_eq)
    qed
  qed
qed

lemma str_inj: "0 \<le> i \<Longrightarrow> 0 \<le> j \<Longrightarrow> str i = str j \<Longrightarrow> i = j"
  using digits_inj [of "nat i" "nat j"] by (simp add: str_def)

lemma char_of_48: "char_of (48 :: nat) = CHR ''0''"
  by code_simp

lemma str_zero: "str 0 = ''0''"
  by (simp add: str_def digits_small char_of_48)

lemma range1_positive: "k \<in> set (range1 n) \<Longrightarrow> 1 \<le> k"
  by (simp add: set_range1)

lemma distinct_stage_names:
  "distinct (map (\<lambda>k. prefix @ str k) (0 # range1 n))"
proof -
  have "inj_on (\<lambda>k. prefix @ str k) (set (0 # range1 n))"
  proof (rule inj_onI)
    fix i j
    assume "i \<in> set (0 # range1 n)" and "j \<in> set (0 # range1 n)"
      and "prefix @ str i = prefix @ str j"
    then have "0 \<le> i" and "0 \<le> j" and "str i = str j"
      using range1_positive [of i n] range1_positive [of j n] by auto
    then show "i = j" by (rule str_inj)
  qed
  moreover have "distinct (0 # range1 n)"
    using range1_positive [of 0 n] by (auto simp: distinct_range1)
  ultimately show ?thesis
    by (simp add: distinct_map)
qed

lemma cifar_block_names_alt:
  "cifar_block_names n =
     map (\<lambda>k. ''res1.'' @ str k) (0 # range1 n) @
     map (\<lambda>k. ''res2.'' @ str k) (0 # range1 n) @
     map (\<lambda>k. ''res3.'' @ str k) (0 # range1 n)"
  by (simp add: cifar_block_names_def str_zero)

lemma distinct_cifar_block_names: "distinct (cifar_block_names n)"
proof -
  have "set (map (\<lambda>k. ''res1.'' @ str k) (0 # range1 n)) \<inter>
        set (map (\<lambda>k. ''res2.'' @ str k) (0 # range1 n)) = {}"
    and "set (map (\<lambda>k. ''res1.'' @ str k) (0 # range1 n)) \<inter>
        set (map (\<lambda>k. ''res3.'' @ str k) (0 # range1 n)) = {}"
    and "set (map (\<lambda>k. ''res2.'' @ str k) (0 # range1 n)) \<inter>
        set (map (\<lambda>k. ''res3.'' @ str k) (0 # range1 n)) = {}"
    by auto
  then show ?thesis
    unfolding cifar_block_names_alt
    using distinct_stage_names [of "''res1.''" n] distinct_stage_names [of "''res2.''" n]
      distinct_stage_names [of "''res3.''" n]
    by (simp only: distinct_append set_append) blast
qed

lemma length_cifar_block_names: "length (cifar_block_names n) = 3 + 3 * (nat n - 1)"
  by (simp add: cifar_block_names_def length_range1)

subsection \<open>What the graph records of its gates\<close>

lemma identity_key_inj: "name @ ''/identity'' = name' @ ''/identity'' \<longleftrightarrow> name = name'"
  by simp

lemma stored_gate_other:
  assumes "\<forall>k. k \<noteq> name @ ''/identity'' \<longrightarrow> vs' k = vs k" and "name' \<noteq> name"
  shows "stored_gate vs' name' = stored_gate vs name'"
  using assms by (simp add: stored_gate_cases)

lemma recorded_residual:
  assumes r: "cifar_residual fw eps tr name l inc first st = Inr (l1, st1)"
  shows "blocks_recorded [name] st st1"
proof -
  have len: "1 < length (shape l)"
    using r by (simp add: cifar_residual_def split: if_splits)
  note g = gate_lifecycle [OF cifar_residual_variables [OF r]]
  have other: "\<forall>name'. name' \<notin> set [name] \<longrightarrow>
      stored_gate (variables st1) name' = stored_gate (variables st) name'"
  proof (intro allI impI)
    fix name'
    assume "name' \<notin> set [name]"
    then have "name' \<noteq> name" by simp
    moreover from g have "\<forall>k. k \<noteq> name @ ''/identity'' \<longrightarrow> variables st1 k = variables st k"
      by blast
    ultimately show "stored_gate (variables st1) name' = stored_gate (variables st) name'"
      by (rule stored_gate_other [rotated])
  qed
  have "preds st1 = preds st @ [is_discarded (stored_gate (variables st1) name)]"
  proof (cases tr)
    case True
    with r len g show ?thesis
      by (auto simp: cifar_residual_train split: sum.splits)
  next
    case False
    with r len g show ?thesis
      by (auto simp: cifar_residual_test split: sum.splits)
  qed
  with other show ?thesis
    by (simp add: blocks_recorded_def)
qed

lemma recorded_nil: "blocks_recorded [] st st"
  by (simp add: blocks_recorded_def)

lemma recorded_compose:
  assumes "blocks_recorded xs st st1" and "blocks_recorded ys st1 st2"
    and "set xs \<inter> set ys = {}"
  shows "blocks_recorded (xs @ ys) st st2"
proof -
  have keep: "stored_gate (variables st2) name = stored_gate (variables st1) name"
    if "name \<in> set xs" for name
    using that assms(2,3) by (auto simp: blocks_recorded_def)
  have "map (\<lambda>name. is_discarded (stored_gate (variables st1) name)) xs =
        map (\<lambda>name. is_discarded (stored_gate (variables st2) name)) xs"
    by (rule map_cong) (simp_all add: keep)
  with assms(1,2) show ?thesis
    by (auto simp: blocks_recorded_def)
qed

lemma recorded_side:
  "blocks_recorded xs (st \<lparr> side_output_cost := c \<rparr>) st' \<longleftrightarrow> blocks_recorded xs st st'"
  by (simp add: blocks_recorded_def)

lemma recorded_stage_loop:
  assumes "cifar_stage_loop fw eps tr prefix ks l st = Inr (l', st')"
    and "distinct (map (\<lambda>k. prefix @ str k) ks)"
  shows "blocks_recorded (map (\<lambda>k. prefix @ str k) ks) st st'"
  using assms
proof (induction ks arbitrary: l st)
  case Nil
  then show ?case by (simp add: recorded_nil)
next
  case (Cons k ks)
  from Cons.prems(1) obtain l1 st1 where
    r: "cifar_residual fw eps tr (prefix @ str k) l False False st = Inr (l1, st1)"
    and rest: "cifar_stage_loop fw eps tr prefix ks l1 st1 = Inr (l', st')"
    by (auto split: sum.splits)
  from Cons.prems(2) have d: "distinct (map (\<lambda>k. prefix @ str k) ks)"
    and n: "set [prefix @ str k] \<inter> set (map (\<lambda>k. prefix @ str k) ks) = {}"
    by auto
  from recorded_compose [OF recorded_residual [OF r] Cons.IH [OF rest d] n]
  show ?case by simp
qed

lemma recorded_stage2_loop:
  assumes "cifar_stage2_loop fw eps tr n label ks l st = Inr (l', st')"
    and "distinct (map (\<lambda>k. ''res2.'' @ str k) ks)"
  shows "blocks_recorded (map (\<lambda>k. ''res2.'' @ str k) ks) st st'"
  using assms
proof (induction ks arbitrary: l st)
  case Nil
  then show ?case by (simp add: recorded_nil)
next
  case (Cons k ks)
  from Cons.prems(1) obtain l1 st1 where
    r: "cifar_residual fw eps tr (''res2.'' @ str k) l False False st = Inr (l1, st1)"
    and rest: "cifar_stage2_loop fw eps tr n label ks l1
        (if k = n div 2
         then st1 \<lparr> side_output_cost :=
                      side_output_cost st1 @ [side_output fw (''res2.'' @ str k) l1 label 10] \<rparr>
         else st1) = Inr (l', st')"
    by (auto split: sum.splits)
  from Cons.prems(2) have d: "distinct (map (\<lambda>k. ''res2.'' @ str k) ks)"
    and n: "set [''res2.'' @ str k] \<inter> set (map (\<lambda>k. ''res2.'' @ str k) ks) = {}"
    by auto
  from Cons.IH [OF rest d] have "blocks_recorded (map (\<lambda>k. ''res2.'' @ str k) ks) st1 st'"
    by (simp add: recorded_side split: if_splits)
  from recorded_compose [OF recorded_residual [OF r] this n]
  show ?case by simp
qed

lemma recorded_build:
  assumes "cifar_build_graph fw gpu_ok eps n tr vs img label = Inr g"
  shows "blocks_recorded (cifar_block_names n)
           \<lparr> variables = vs, preds = [], side_output_cost = [] \<rparr> (g_build g)"
proof -
  let ?B1 = "map (\<lambda>k. ''res1.'' @ str k) (range1 n)"
  let ?B2 = "map (\<lambda>k. ''res2.'' @ str k) (range1 n)"
  let ?B3 = "map (\<lambda>k. ''res3.'' @ str k) (range1 n)"
  let ?st0 = "\<lparr> variables = vs, preds = [], side_output_cost = [] \<rparr>"
  from assms obtain l1 st1 l2 st2 l3 st3 l4 st4 l5 st5 l6 st6 where
    b1: "cifar_residual fw eps tr ''res1.0''
       (Conv2D fw ''conv0'' (tf_transpose fw (tscale (1 / 128) img) [0, 3, 1, 2]) 16 3 1 nl_BNReLU)
       False True ?st0 = Inr (l1, st1)"
    and b2: "cifar_stage_loop fw eps tr ''res1.'' (range1 n) l1 st1 = Inr (l2, st2)"
    and b3: "cifar_residual fw eps tr ''res2.0'' l2 True False st2 = Inr (l3, st3)"
    and b4: "cifar_stage2_loop fw eps tr n label (range1 n) l3 st3 = Inr (l4, st4)"
    and b5: "cifar_residual fw eps tr ''res3.0'' l4 True False st4 = Inr (l5, st5)"
    and b6: "cifar_stage_loop fw eps tr ''res3.'' (range1 n) l5 st5 = Inr (l6, st6)"
    and g: "g_build g = st6"
    by (rule cifar_build_graph_Inr)
  have D: "distinct ((''res1.0'' # ?B1) @ (''res2.0'' # ?B2) @ (''res3.0'' # ?B3))"
    using distinct_cifar_block_names [of n] by (simp only: cifar_block_names_def)
  have d1: "distinct ?B1" and d2: "distinct ?B2" and d3: "distinct ?B3"
    using D by simp_all
  have i1: "set [''res1.0''] \<inter> set ?B1 = {}"
    using D by auto
  have i2: "set ([''res1.0''] @ ?B1) \<inter> set [''res2.0''] = {}"
    using D by auto
  have i3: "set (([''res1.0''] @ ?B1) @ [''res2.0'']) \<inter> set ?B2 = {}"
    using D by auto
  have i4: "set ((([''res1.0''] @ ?B1) @ [''res2.0'']) @ ?B2) \<inter> set [''res3.0''] = {}"
    using D by auto
  have i5: "set (((([''res1.0''] @ ?B1) @ [''res2.0'']) @ ?B2) @ [''res3.0'']) \<inter> set ?B3 = {}"
    using D by auto
  note c1 = recorded_compose [OF recorded_residual [OF b1] recorded_stage_loop [OF b2 d1] i1]
  note c2 = recorded_compose [OF c1 recorded_residual [OF b3] i2]
  note c3 = recorded_compose [OF c2 recorded_stage2_loop [OF b4 d2] i3]
  note c4 = recorded_compose [OF c3 recorded_residual [OF b5] i4]
  note c5 = recorded_compose [OF c4 recorded_stage_loop [OF b6 d3] i5]
  from c5 g show ?thesis
    by (simp add: cifar_block_names_def)
qed

lemma sum_list_is_discarded:
  "sum_list (map (\<lambda>name. is_discarded (f name)) xs) =
     real (length (filter (\<lambda>name. f name = 0) xs))"
  by (induction xs) (simp_all add: is_discarded_def tf_where_def)

lemma cifar_residual_inference_gates:
  assumes "cifar_residual fw eps False name l inc first st = Inr (l1, st1)"
  shows "stored_gate (variables st1) name' = stored_gate (variables st) name'"
  by (simp add: cifar_residual_variables [OF assms] stored_gate_created)

lemma cifar_build_graph_inference_gates:
  assumes "cifar_build_graph fw gpu_ok eps n False vs img label = Inr g"
  shows "\<forall>name. stored_gate (variables (g_build g)) name = stored_gate vs name"
proof (rule cifar_build_graph_invariant [OF assms,
        where P = "\<lambda>st. \<forall>name. stored_gate (variables st) name = stored_gate vs name"])
  show "\<forall>name. stored_gate (variables \<lparr> variables = vs, preds = [], side_output_cost = [] \<rparr>) name =
      stored_gate vs name"
    by simp
next
  fix name l inc first st l1 st1
  assume p: "\<forall>name. stored_gate (variables st) name = stored_gate vs name"
    and r: "cifar_residual fw eps False name l inc first st = Inr (l1, st1)"
  from p show "\<forall>name. stored_gate (variables st1) name = stored_gate vs name"
    by (simp add: cifar_residual_inference_gates [OF r])
next
  fix st :: build and xs
  assume "\<forall>name. stored_gate (variables st) name = stored_gate vs name"
  then show "\<forall>name. stored_gate (variables (st \<lparr> side_output_cost := xs \<rparr>)) name =
      stored_gate vs name"
    by simp
qed

lemma cifar_counts:
  assumes g: "cifar_build_graph fw gpu_ok eps n tr vs img label = Inr g"
  shows "preds (g_build g) =
           map (\<lambda>name. is_discarded (stored_gate (variables (g_build g)) name))
             (cifar_block_names n)"
    and "g_discarded_cnt g =
           real (length (filter (\<lambda>name. stored_gate (variables (g_build g)) name = 0)
                           (cifar_block_names n)))"
    and "g_all_cnt g = real_of_int (3 * n + 2)"
    and "g_discarded_ratio g = g_discarded_cnt g / real_of_int (3 * n + 2)"
proof -
  from recorded_build [OF g]
  show p: "preds (g_build g) =
           map (\<lambda>name. is_discarded (stored_gate (variables (g_build g)) name))
             (cifar_block_names n)"
    by (simp add: blocks_recorded_def)
  from g obtain st6 where b: "g_build g = st6"
    and c: "add_n (preds st6) = Inr (g_discarded_cnt g)"
    and a: "g_all_cnt g = real_of_int (n * 3 + 2)"
    and r: "g_discarded_ratio g = g_discarded_cnt g / g_all_cnt g"
    by (rule cifar_build_graph_Inr)
  from c b have "g_discarded_cnt g = sum_list (preds (g_build g))"
    by (auto simp: add_n_def split: if_splits)
  then show "g_discarded_cnt g =
           real (length (filter (\<lambda>name. stored_gate (variables (g_build g)) name = 0)
                           (cifar_block_names n)))"
    by (simp only: p sum_list_is_discarded)
  from a show a': "g_all_cnt g = real_of_int (3 * n + 2)"
    by (simp add: mult.commute)
  from r a' show "g_discarded_ratio g = g_discarded_cnt g / real_of_int (3 * n + 2)"
    by simp
qed

subsection \<open>Counting the discarded blocks\<close>

text \<open>
  Claim C10.  The CIFAR-10 graph builds the first block of each stage whatever \<open>n\<close> is,
  and \<open>n - 1\<close> further blocks per stage in its loops.  So for \<open>n\<close> at least 1 it has
  exactly \<open>3n\<close> gated blocks, of distinct names; \<^verbatim>\<open>preds\<close> holds, block by block, 1.0 where
  the gate of the block is 0.0 and 0.0 where it is not; \<^verbatim>\<open>discarded_cnt\<close> is the number of
  blocks whose gate is 0.0 (the gates of the store at inference, the newly assigned ones
  in training); and \<^verbatim>\<open>discarded_ratio\<close> divides it by \<open>3n + 2\<close>, which is not the number
  of gated blocks.
\<close>

theorem discarded_cnt_counts_closed_gates:
  "1 \<le> n \<and> cifar_build_graph fw gpu_ok eps n tr vs img label = Inr g \<longrightarrow>
     length (cifar_block_names n) = nat (3 * n) \<and>
     distinct (cifar_block_names n) \<and>
     length (preds (g_build g)) = nat (3 * n) \<and>
     preds (g_build g) =
       map (\<lambda>name. is_discarded (stored_gate (variables (g_build g)) name))
         (cifar_block_names n) \<and>
     g_discarded_cnt g =
       real (length (filter (\<lambda>name. stored_gate (variables (g_build g)) name = 0)
                       (cifar_block_names n))) \<and>
     (\<not> tr \<longrightarrow> (\<forall>name. stored_gate (variables (g_build g)) name = stored_gate vs name)) \<and>
     g_all_cnt g = real_of_int (3 * n + 2) \<and>
     g_discarded_ratio g = g_discarded_cnt g / real_of_int (3 * n + 2) \<and>
     g_all_cnt g \<noteq> real (length (cifar_block_names n))"
proof (intro impI, elim conjE)
  assume n: "1 \<le> n" and g: "cifar_build_graph fw gpu_ok eps n tr vs img label = Inr g"
  have len: "length (cifar_block_names n) = nat (3 * n)"
    using n by (simp add: length_cifar_block_names)
  note c = cifar_counts [OF g]
  have lp: "length (preds (g_build g)) = nat (3 * n)"
    by (simp only: c(1) length_map len)
  have inf: "\<not> tr \<longrightarrow> (\<forall>name. stored_gate (variables (g_build g)) name = stored_gate vs name)"
    using g cifar_build_graph_inference_gates [of fw gpu_ok eps n vs img label g] by auto
  have ne: "g_all_cnt g \<noteq> real (length (cifar_block_names n))"
    using n by (simp add: c(3) len)
  from len distinct_cifar_block_names [of n] lp c inf ne
  show "length (cifar_block_names n) = nat (3 * n) \<and>
     distinct (cifar_block_names n) \<and>
     length (preds (g_build g)) = nat (3 * n) \<and>
     preds (g_build g) =
       map (\<lambda>name. is_discarded (stored_gate (variables (g_build g)) name))
         (cifar_block_names n) \<and>
     g_discarded_cnt g =
       real (length (filter (\<lambda>name. stored_gate (variables (g_build g)) name = 0)
                       (cifar_block_names n))) \<and>
     (\<not> tr \<longrightarrow> (\<forall>name. stored_gate (variables (g_build g)) name = stored_gate vs name)) \<and>
     g_all_cnt g = real_of_int (3 * n + 2) \<and>
     g_discarded_ratio g = g_discarded_cnt g / real_of_int (3 * n + 2) \<and>
     g_all_cnt g \<noteq> real (length (cifar_block_names n))"
    by blast
qed

lemma cifar_block_names_one: "cifar_block_names 1 = [''res1.0'', ''res2.0'', ''res3.0'']"
  by (simp add: cifar_block_names_def range1_small)

theorem discarded_cnt_counts_closed_gates_witness:
  "cifar_build_graph toy_env True 3 1 True Map.empty (toy_tensor 256) [] =
     Inr \<lparr> g_logits = toy_tensor 2, g_all_cnt = 5, g_discarded_cnt = 3,
           g_discarded_ratio = 3 / 5, g_side_output_cost = [], g_cost = 1,
           g_build =
             \<lparr> variables = [''res1.0/identity'' \<mapsto> toy_gate 0, ''res2.0/identity'' \<mapsto> toy_gate 0,
                             ''res3.0/identity'' \<mapsto> toy_gate 0],
               preds = [1, 1, 1], side_output_cost = [] \<rparr> \<rparr> \<and>
   cifar_block_names 1 = [''res1.0'', ''res2.0'', ''res3.0''] \<and>
   length (filter (\<lambda>name. stored_gate
       [''res1.0/identity'' \<mapsto> toy_gate 0, ''res2.0/identity'' \<mapsto> toy_gate 0,
        ''res3.0/identity'' \<mapsto> toy_gate 0] name = 0) (cifar_block_names 1)) = 3"
proof -
  let ?vs = "[''res1.0/identity'' \<mapsto> toy_gate 0, ''res2.0/identity'' \<mapsto> toy_gate 0,
      ''res3.0/identity'' \<mapsto> toy_gate 0]"
  let ?g = "\<lparr> g_logits = toy_tensor 2, g_all_cnt = 5, g_discarded_cnt = 3,
      g_discarded_ratio = 3 / 5, g_side_output_cost = [], g_cost = 1,
      g_build = \<lparr> variables = ?vs, preds = [1, 1, 1], side_output_cost = [] \<rparr> \<rparr>"
  note t = discarded_cnt_counts_closed_gates [where n = 1 and fw = toy_env and gpu_ok = True
      and eps = 3 and tr = True and vs = Map.empty and img = "toy_tensor 256" and label = "[]"
      and g = ?g]
  have c: "cifar_build_graph toy_env True 3 1 True Map.empty (toy_tensor 256) [] = Inr ?g"
    by (rule toy_cifar_train_step)
  from t c have "g_discarded_cnt ?g =
      real (length (filter (\<lambda>name. stored_gate (variables (g_build ?g)) name = 0)
                      (cifar_block_names 1)))"
    by simp
  then have "length (filter (\<lambda>name. stored_gate ?vs name = 0) (cifar_block_names 1)) = 3"
    by simp
  with c cifar_block_names_one show ?thesis
    by simp
qed

text \<open>
  With \<open>n = 0\<close> the graph still has the first block of each stage: three gated blocks,
  where \<open>3n\<close> is 0.
\<close>

theorem three_blocks_for_zero_units:
  "map_sum id (length \<circ> preds \<circ> g_build)
     (cifar_build_graph toy_env True 3 0 False Map.empty (toy_tensor 256) []) = Inr 3 \<and>
   cifar_block_names 0 = [''res1.0'', ''res2.0'', ''res3.0''] \<and>
   (3 :: nat) \<noteq> nat (3 * 0)"
  by (simp add: cifar_build_graph_def Let_def toy_simps toy_tscale_img toy_cifar_test
      range1_small add_n_def weigh_side_costs_def is_discarded_def tf_where_def
      get_variable_def toy_gate_def stored_gate_cases cifar_block_names_def)

end
